theory Spec2Isabelle
  imports Complex_Main
begin

section \<open>Data model\<close>

text \<open>
  The Go sources are \<^verbatim>\<open>surfforecast.go\<close>, \<^verbatim>\<open>buoy.go\<close>, \<^verbatim>\<open>buoyitem.go\<close> and
  \<^verbatim>\<open>location.go\<close>. Conventions of the embedding:
  \<^item> \<^verbatim>\<open>float64\<close> is \<^typ>\<open>real\<close>: NaN and the infinities are not represented, and rounding
    is represented where the code computes on durations (\<^verbatim>\<open>Duration.Seconds\<close>);
  \<^item> a Go slice whose \<^verbatim>\<open>nil\<close>-ness the code tests is an \<^typ>\<open>'a list option\<close>
    (\<^term>\<open>None\<close> is \<^verbatim>\<open>nil\<close>, \<^term>\<open>Some []\<close> an empty non-nil slice); the slice of a
    \<^verbatim>\<open>SurfForecast\<close>, which the code only ranges over and indexes, is a list;
  \<^item> a pointer argument that may be \<^verbatim>\<open>nil\<close> is an \<^typ>\<open>'a option\<close>, and a run-time panic
    is a value of type \<open>panic\<close>;
  \<^item> a method that mutates its receiver returns the updated receiver.
\<close>

datatype panic = NilPointerDereference | IndexOutOfRange

text \<open>
  Modelled from the spec: the declaration of \<^verbatim>\<open>UnitSystem\<close> lies outside these four files,
  which name only its constant \<^verbatim>\<open>Metric\<close>; the spec (4.2.1) has exactly two unit systems.
\<close>

datatype UnitSystem = Metric | English

text \<open>\<^verbatim>\<open>location.go\<close>, type \<^verbatim>\<open>Location\<close>.\<close>

record Location =
  Latitude :: real
  Longitude :: real
  Elevation :: real
  LocationName :: string

text \<open>
  The declarations of \<^verbatim>\<open>NOAAModel\<close>, \<^verbatim>\<open>Swell\<close>, \<^verbatim>\<open>SurfForecastItem\<close>, \<^verbatim>\<open>WaveForecast\<close>
  and \<^verbatim>\<open>WindForecast\<close> (with their item types) lie outside these four files. The records
  below carry exactly the fields that \<^verbatim>\<open>surfforecast.go\<close> reads or writes.
\<close>

record NOAAModel =
  Units :: UnitSystem

record Swell =
  WaveHeight :: real
  Period :: real
  Direction :: real
  CompassDirection :: string

record SurfForecastItem =
  Date :: string
  Time :: string
  WindSpeed :: real
  WindGustSpeed :: real
  WindDirection :: real
  WindCompassDirection :: string
  PrimarySwellComponent :: Swell
  SecondarySwellComponent :: Swell
  TertiarySwellComponent :: Swell
  MinimumBreakingHeight :: real
  MaximumBreakingHeight :: real

record WaveForecastItem =
  Date :: string
  Time :: string
  SurfaceWindSpeed :: real
  SurfaceWindDirection :: real
  PrimarySwellWaveHeight :: real
  PrimarySwellPeriod :: real
  PrimarySwellDirection :: real
  SecondarySwellWaveHeight :: real
  SecondarySwellPeriod :: real
  SecondarySwellDirection :: real
  WindSwellWaveHeight :: real
  WindSwellPeriod :: real
  WindSwellDirection :: real

record WindForecastItem =
  WindSpeed :: real
  WindGustSpeed :: real
  WindDirection :: real

record WaveForecast =
  Model :: NOAAModel
  Location :: Location
  ForecastData :: "WaveForecastItem list option"

record WindForecast =
  Model :: NOAAModel
  Location :: Location
  ForecastData :: "WindForecastItem list option"

text \<open>\<^verbatim>\<open>surfforecast.go\<close>, type \<^verbatim>\<open>SurfForecast\<close>.\<close>

record SurfForecast =
  Location :: Location
  BeachAngle :: real
  BeachSlope :: real
  Units :: UnitSystem
  ForecastData :: "SurfForecastItem list"
  WaveModel :: NOAAModel
  WaveModelLocation :: Location
  WindModel :: NOAAModel
  WindModelLocation :: Location

text \<open>
  Functions of the repository that \<^verbatim>\<open>surfforecast.go\<close> calls and that are defined outside
  these four files. They are parameters of the model, and every theorem below holds for
  each value of them. They are taken to return without a panic, and
  \<^verbatim>\<open>BreakingWaveHeights\<close> to leave the swell it is called on as it is.
\<close>

record Collaborators =
  DegreeToDirection :: "real \<Rightarrow> string"
  BreakingWaveHeights :: "Swell \<Rightarrow> real \<Rightarrow> real \<Rightarrow> real \<Rightarrow> real \<times> real"
  WaveForecast_ChangeUnits :: "UnitSystem \<Rightarrow> WaveForecast \<Rightarrow> WaveForecast"
  WindForecast_ChangeUnits :: "UnitSystem \<Rightarrow> WindForecast \<Rightarrow> WindForecast"
  SurfForecastItem_ChangeUnits :: "UnitSystem \<Rightarrow> SurfForecastItem \<Rightarrow> SurfForecastItem"

section \<open>Unit conversion of a surf forecast\<close>

text \<open>
  \<^verbatim>\<open>func (s *SurfForecast) ChangeUnits(newUnits UnitSystem)\<close>: returns at once when the units
  match; otherwise converts every item in place and records the new units.
\<close>

definition SurfForecast_ChangeUnits ::
  "Collaborators \<Rightarrow> UnitSystem \<Rightarrow> SurfForecast \<Rightarrow> SurfForecast" where
  "SurfForecast_ChangeUnits X newUnits s =
     (if SurfForecast.Units s = newUnits then s
      else s\<lparr>SurfForecast.ForecastData :=
                map (SurfForecastItem_ChangeUnits X newUnits) (SurfForecast.ForecastData s),
             SurfForecast.Units := newUnits\<rparr>)"

section \<open>Forecast synthesis\<close>

text \<open>The zero values \<^verbatim>\<open>Swell{}\<close> and \<^verbatim>\<open>SurfForecastItem{}\<close>.\<close>

definition zero_Swell :: Swell where
  "zero_Swell = \<lparr>WaveHeight = 0, Period = 0, Direction = 0, CompassDirection = []\<rparr>"

definition zero_SurfForecastItem :: SurfForecastItem where
  "zero_SurfForecastItem = \<lparr>SurfForecastItem.Date = [], Time = [],
     WindSpeed = 0, WindGustSpeed = 0, WindDirection = 0, WindCompassDirection = [],
     PrimarySwellComponent = zero_Swell, SecondarySwellComponent = zero_Swell,
     TertiarySwellComponent = zero_Swell,
     MinimumBreakingHeight = 0, MaximumBreakingHeight = 0\<rparr>"

text \<open>
  \<^verbatim>\<open>NewSurfForecast\<close>, lines 109--128: the three swells of one wave record. Swell one is built
  from the record's primary swell fields, swell two from its secondary swell fields, swell
  three from its wind swell fields.
\<close>

definition swellOneOf :: "Collaborators \<Rightarrow> WaveForecastItem \<Rightarrow> Swell" where
  "swellOneOf X w = zero_Swell\<lparr>WaveHeight := PrimarySwellWaveHeight w,
     Period := PrimarySwellPeriod w,
     Direction := PrimarySwellDirection w,
     CompassDirection := DegreeToDirection X (PrimarySwellDirection w)\<rparr>"

definition swellTwoOf :: "Collaborators \<Rightarrow> WaveForecastItem \<Rightarrow> Swell" where
  "swellTwoOf X w = zero_Swell\<lparr>WaveHeight := SecondarySwellWaveHeight w,
     Period := SecondarySwellPeriod w,
     Direction := SecondarySwellDirection w,
     CompassDirection := DegreeToDirection X (SecondarySwellDirection w)\<rparr>"

definition swellThreeOf :: "Collaborators \<Rightarrow> WaveForecastItem \<Rightarrow> Swell" where
  "swellThreeOf X w = zero_Swell\<lparr>WaveHeight := WaveForecastItem.WindSwellWaveHeight w,
     Period := WindSwellPeriod w,
     Direction := WaveForecastItem.WindSwellDirection w,
     CompassDirection := DegreeToDirection X (WaveForecastItem.WindSwellDirection w)\<rparr>"

text \<open>
  \<^verbatim>\<open>NewSurfForecast\<close>, lines 130--169: ``put the swells in order and set the estimated
  breaking wave height''. Each argument is a swell with its minimum and maximum breaking
  height; every comparison is the source's strict \<^verbatim>\<open>>\<close>.
\<close>

fun orderSwells ::
  "Swell \<times> real \<times> real \<Rightarrow> Swell \<times> real \<times> real \<Rightarrow> Swell \<times> real \<times> real \<Rightarrow>
   SurfForecastItem \<Rightarrow> SurfForecastItem" where
  "orderSwells (swellOne, swellOneMin, swellOneMax) (swellTwo, swellTwoMin, swellTwoMax)
     (swellThree, swellThreeMin, swellThreeMax) item =
     (if swellOneMax > swellTwoMax then
        (if swellOneMax > swellThreeMax then
           (if swellTwoMax > swellThreeMax then
              item\<lparr>PrimarySwellComponent := swellOne,
                   MinimumBreakingHeight := swellOneMin,
                   MaximumBreakingHeight := swellOneMax,
                   SecondarySwellComponent := swellTwo,
                   TertiarySwellComponent := swellThree\<rparr>
            else
              item\<lparr>PrimarySwellComponent := swellOne,
                   MinimumBreakingHeight := swellOneMin,
                   MaximumBreakingHeight := swellOneMax,
                   SecondarySwellComponent := swellThree,
                   TertiarySwellComponent := swellTwo\<rparr>)
         else
           item\<lparr>PrimarySwellComponent := swellThree,
                MinimumBreakingHeight := swellThreeMin,
                MaximumBreakingHeight := swellThreeMax,
                SecondarySwellComponent := swellOne,
                TertiarySwellComponent := swellTwo\<rparr>)
      else if swellTwoMax > swellThreeMax then
        (if swellOneMax > swellThreeMax then
           item\<lparr>PrimarySwellComponent := swellTwo,
                MinimumBreakingHeight := swellTwoMin,
                MaximumBreakingHeight := swellTwoMax,
                SecondarySwellComponent := swellOne,
                TertiarySwellComponent := swellThree\<rparr>
         else
           item\<lparr>PrimarySwellComponent := swellTwo,
                MinimumBreakingHeight := swellTwoMin,
                MaximumBreakingHeight := swellTwoMax,
                SecondarySwellComponent := swellThree,
                TertiarySwellComponent := swellOne\<rparr>)
      else
        item\<lparr>PrimarySwellComponent := swellThree,
             MinimumBreakingHeight := swellThreeMin,
             MaximumBreakingHeight := swellThreeMax,
             SecondarySwellComponent := swellTwo,
             TertiarySwellComponent := swellOne\<rparr>)"

text \<open>
  \<^verbatim>\<open>NewSurfForecast\<close>, lines 97--107: the wind fields of the item at index \<open>i\<close>. With wind
  data the read \<^verbatim>\<open>windForecast.ForecastData[i]\<close> panics when \<open>i\<close> is not below the length of
  the wind series.
\<close>

definition fillWind ::
  "Collaborators \<Rightarrow> bool \<Rightarrow> WaveForecastItem \<Rightarrow> WindForecastItem list \<Rightarrow> nat \<Rightarrow>
   SurfForecastItem \<Rightarrow> panic + SurfForecastItem" where
  "fillWind X noWindData w windData i item =
     (if \<not> noWindData then
        (if i < length windData then
           Inr (item\<lparr>SurfForecastItem.WindSpeed := WindForecastItem.WindSpeed (windData ! i),
                     SurfForecastItem.WindGustSpeed := WindForecastItem.WindGustSpeed (windData ! i),
                     SurfForecastItem.WindDirection := WindForecastItem.WindDirection (windData ! i),
                     WindCompassDirection :=
                       DegreeToDirection X (WindForecastItem.WindDirection (windData ! i))\<rparr>)
         else Inl IndexOutOfRange)
      else
        Inr (item\<lparr>SurfForecastItem.WindSpeed := SurfaceWindSpeed w,
                  SurfForecastItem.WindGustSpeed := -1,
                  SurfForecastItem.WindDirection := SurfaceWindDirection w,
                  WindCompassDirection := DegreeToDirection X (SurfaceWindDirection w)\<rparr>))"

text \<open>
  \<^verbatim>\<open>NewSurfForecast\<close>, lines 93--169: the body of the loop for the wave record \<open>w\<close> at
  index \<open>i\<close>. The elevation passed to \<^verbatim>\<open>BreakingWaveHeights\<close> is that of the wave model's
  location.
\<close>

definition surfForecastItemFor ::
  "Collaborators \<Rightarrow> real \<Rightarrow> real \<Rightarrow> real \<Rightarrow> bool \<Rightarrow> WindForecastItem list \<Rightarrow>
   nat \<Rightarrow> WaveForecastItem \<Rightarrow> panic + SurfForecastItem" where
  "surfForecastItemFor X beachAngle elevation beachSlope noWindData windData i w =
     (case fillWind X noWindData w windData i
             (zero_SurfForecastItem\<lparr>SurfForecastItem.Date := WaveForecastItem.Date w,
                                    SurfForecastItem.Time := WaveForecastItem.Time w\<rparr>) of
        Inl p \<Rightarrow> Inl p
      | Inr item \<Rightarrow>
          Inr (orderSwells
                 (swellOneOf X w, BreakingWaveHeights X (swellOneOf X w) beachAngle elevation beachSlope)
                 (swellTwoOf X w, BreakingWaveHeights X (swellTwoOf X w) beachAngle elevation beachSlope)
                 (swellThreeOf X w,
                    BreakingWaveHeights X (swellThreeOf X w) beachAngle elevation beachSlope)
                 item))"

text \<open>
  \<^verbatim>\<open>NewSurfForecast\<close>, lines 92 and 172: the loop over the indices of the wave series, storing
  each item at its index of the output slice; a panic ends it.
\<close>

fun forecastLoop ::
  "(nat \<Rightarrow> WaveForecastItem \<Rightarrow> panic + SurfForecastItem) \<Rightarrow> WaveForecastItem list \<Rightarrow>
   nat list \<Rightarrow> SurfForecastItem list \<Rightarrow> panic + SurfForecastItem list" where
  "forecastLoop body waveData [] out = Inr out"
| "forecastLoop body waveData (i # is) out =
     (case body i (waveData ! i) of
        Inl p \<Rightarrow> Inl p
      | Inr item \<Rightarrow> forecastLoop body waveData is (out[i := item]))"

text \<open>
  \<^verbatim>\<open>NewSurfForecast\<close>, lines 54--58 and 68--174, for the two forecasts as they are after the
  unit check. The result is \<^term>\<open>Inr None\<close> for the \<^verbatim>\<open>nil\<close> return.
\<close>

definition synthesize ::
  "Collaborators \<Rightarrow> Location \<Rightarrow> real \<Rightarrow> real \<Rightarrow> WaveForecast \<Rightarrow> WindForecast \<Rightarrow>
   panic + SurfForecast option" where
  "synthesize X loc beachAngle beachSlope waveForecast windForecast =
     (let surfForecast =
            \<lparr>SurfForecast.Location = loc, BeachAngle = beachAngle, BeachSlope = beachSlope,
             Units = Metric,
             ForecastData =
               replicate (case WaveForecast.ForecastData waveForecast of
                            None \<Rightarrow> 0 | Some waveData \<Rightarrow> length waveData)
                 zero_SurfForecastItem,
             WaveModel = WaveForecast.Model waveForecast,
             WaveModelLocation = WaveForecast.Location waveForecast,
             WindModel = WindForecast.Model windForecast,
             WindModelLocation = WindForecast.Location windForecast\<rparr>
      in case WaveForecast.ForecastData waveForecast of
           None \<Rightarrow> Inr None
         | Some waveData \<Rightarrow>
             if length waveData < 1 then Inr None
             else
               let noWindData =
                     (case WindForecast.ForecastData windForecast of
                        None \<Rightarrow> True | Some windData \<Rightarrow> length windData < 1);
                   windData =
                     (case WindForecast.ForecastData windForecast of
                        None \<Rightarrow> [] | Some windData \<Rightarrow> windData)
               in case forecastLoop
                         (surfForecastItemFor X (BeachAngle surfForecast)
                            (Elevation (WaveModelLocation surfForecast))
                            (BeachSlope surfForecast) noWindData windData)
                         waveData [0..<length waveData]
                         (SurfForecast.ForecastData surfForecast) of
                    Inl p \<Rightarrow> Inl p
                  | Inr items \<Rightarrow> Inr (Some (surfForecast\<lparr>SurfForecast.ForecastData := items\<rparr>)))"

text \<open>
  \<^verbatim>\<open>NewSurfForecast\<close>, lines 60--66: ``make sure all of the units match up''. The conversion
  is applied to the caller's forecast through the pointer.
\<close>

definition waveForecastToMetric :: "Collaborators \<Rightarrow> WaveForecast \<Rightarrow> WaveForecast" where
  "waveForecastToMetric X waveForecast =
     (if NOAAModel.Units (WaveForecast.Model waveForecast) \<noteq> Metric
      then WaveForecast_ChangeUnits X Metric waveForecast else waveForecast)"

definition windForecastToMetric :: "Collaborators \<Rightarrow> WindForecast \<Rightarrow> WindForecast" where
  "windForecastToMetric X windForecast =
     (if NOAAModel.Units (WindForecast.Model windForecast) \<noteq> Metric
      then WindForecast_ChangeUnits X Metric windForecast else windForecast)"

text \<open>
  \<^verbatim>\<open>func NewSurfForecast(loc, beachAngle, beachSlope, waveForecast, windForecast)\<close>. The result
  is the two forecasts as the call leaves them, and the outcome: a panic, \<^verbatim>\<open>nil\<close>
  (\<^term>\<open>Inr None\<close>) or the new surf forecast. Reading \<^verbatim>\<open>waveForecast.Model\<close> (line 61) or
  \<^verbatim>\<open>windForecast.Model\<close> (line 64) through a \<^verbatim>\<open>nil\<close> pointer panics.
\<close>

definition NewSurfForecast ::
  "Collaborators \<Rightarrow> Location \<Rightarrow> real \<Rightarrow> real \<Rightarrow> WaveForecast option \<Rightarrow> WindForecast option \<Rightarrow>
   WaveForecast option \<times> WindForecast option \<times> (panic + SurfForecast option)" where
  "NewSurfForecast X loc beachAngle beachSlope waveForecast windForecast =
     (case waveForecast of
        None \<Rightarrow> (None, windForecast, Inl NilPointerDereference)
      | Some wave0 \<Rightarrow>
          (case windForecast of
             None \<Rightarrow> (Some (waveForecastToMetric X wave0), None, Inl NilPointerDereference)
           | Some wind0 \<Rightarrow>
               (Some (waveForecastToMetric X wave0), Some (windForecastToMetric X wind0),
                synthesize X loc beachAngle beachSlope
                  (waveForecastToMetric X wave0) (windForecastToMetric X wind0))))"

section \<open>Buoy observations\<close>

text \<open>
  \<^verbatim>\<open>time.Time\<close> is an \<^typ>\<open>int\<close>, the instant in nanoseconds on one time line, and
  \<^verbatim>\<open>time.Duration\<close> an \<^typ>\<open>int\<close> of nanoseconds. \<^verbatim>\<open>t.Sub(u)\<close> is the difference
  \<open>t - u\<close>, replaced by the largest or smallest 64-bit duration when it does not fit
  (package \<^verbatim>\<open>time\<close>).
\<close>

definition time_minDuration :: int where
  "time_minDuration = - (2 ^ 63)"

definition time_maxDuration :: int where
  "time_maxDuration = 2 ^ 63 - 1"

definition Time_Sub :: "int \<Rightarrow> int \<Rightarrow> int" where
  "Time_Sub t u =
     (if t - u > time_maxDuration then time_maxDuration
      else if t - u < time_minDuration then time_minDuration
      else t - u)"

text \<open>
  Rounding to \<^verbatim>\<open>float64\<close>: the nearest real with a significand of 53 bits, a tie going to
  the even significand. \<open>round_half_even\<close> rounds to the nearest integer, a tie going to the
  even one; \<open>float64_round\<close> scales by the unit in the last place of the binade of its
  argument. Overflow and subnormal numbers are not represented: the operands below are zero
  or lie between \<open>10\<^sup>-\<^sup>9\<close> and \<open>2\<^sup>3\<^sup>4\<close> in magnitude.
\<close>

definition round_half_even :: "real \<Rightarrow> int" where
  "round_half_even q =
     (let n = \<lfloor>q\<rfloor> in
      if q - of_int n < 1 / 2 then n
      else if 1 / 2 < q - of_int n then n + 1
      else if even n then n else n + 1)"

definition float64_round :: "real \<Rightarrow> real" where
  "float64_round x =
     (if x = 0 then 0
      else let ulp = 2 powr (of_int \<lfloor>log 2 \<bar>x\<bar>\<rfloor> - 52)
           in of_int (round_half_even (x / ulp)) * ulp)"

text \<open>
  \<^verbatim>\<open>func (d Duration) Seconds() float64\<close> of package \<^verbatim>\<open>time\<close>:
  \<^verbatim>\<open>sec := d / Second; nsec := d % Second; return float64(sec) + float64(nsec)/1e9\<close>.
  Go's integer division truncates towards zero and the remainder has the sign of \<open>d\<close>. Both
  conversions are exact (\<open>sec\<close> and \<open>nsec\<close> are below \<open>2\<^sup>5\<^sup>3\<close> in magnitude); the division and
  the addition each round.
\<close>

definition Duration_Seconds :: "int \<Rightarrow> real" where
  "Duration_Seconds d =
     (let sec = sgn d * (\<bar>d\<bar> div 1000000000);
          nsec = sgn d * (\<bar>d\<bar> mod 1000000000)
      in float64_round (of_int sec + float64_round (of_int nsec / 1000000000)))"

text \<open>
  \<^verbatim>\<open>buoyitem.go\<close>, type \<^verbatim>\<open>BuoyItem\<close>. The two source files disagree on three fields:
  \<^verbatim>\<open>buoyitem.go\<close> declares the time stamp as \<^verbatim>\<open>Time string\<close> and both swell directions as
  \<^verbatim>\<open>float64\<close>, while \<^verbatim>\<open>buoy.go\<close> reads and writes the time stamp as \<^verbatim>\<open>Date\<close> (a
  \<^verbatim>\<open>time.Time\<close>) and stores the raw direction text in the swell directions. The record
  follows \<^verbatim>\<open>buoy.go\<close>: one time stamp \<open>Date\<close>, and the two swell directions as strings.
\<close>

record BuoyItem =
  Date :: int
  WindDirection :: real
  WindSpeed :: real
  WindGust :: real
  SignificantWaveHeight :: real
  DominantWavePeriod :: real
  AveragePeriod :: real
  DominantWaveDirection :: real
  MeanWaveDirection :: real
  SwellWaveHeight :: real
  SwellWavePeriod :: real
  SwellWaveDirection :: string
  WindSwellWaveHeight :: real
  WindSwellWavePeriod :: real
  WindSwellDirection :: string
  Steepness :: string
  Pressure :: real
  AirTemperature :: real
  WaterTemperature :: real
  DewpointTemperature :: real
  Visibility :: real
  PressureTendency :: real
  WaterLevel :: real

text \<open>
  \<^verbatim>\<open>buoy.go\<close>, type \<^verbatim>\<open>Buoy\<close> (without \<^verbatim>\<open>XMLName\<close>).
\<close>

record Buoy =
  Location :: "Location option"
  StationID :: string
  Owner :: string
  PGM :: string
  Type :: string
  Active :: string
  Currents :: string
  WaterQuality :: string
  Dart :: string
  BuoyData :: "BuoyItem list option"

text \<open>
  What \<^verbatim>\<open>ParseRawLatestBuoyData\<close> calls and is defined outside these four files:
  \<^verbatim>\<open>time.Parse(layout, value)\<close>, \<^verbatim>\<open>strconv.ParseFloat(s, 64)\<close> (the error of both is dropped
  by the caller), \<^verbatim>\<open>strings.TrimSpace\<close> and the method
  \<^verbatim>\<open>InterpolateDominantWaveDirection\<close> of \<^verbatim>\<open>BuoyItem\<close>. They are parameters of the model.
\<close>

record BuoyExternals =
  Time_Parse :: "string \<Rightarrow> string \<Rightarrow> int"
  ParseFloat :: "string \<Rightarrow> real"
  TrimSpace :: "string \<Rightarrow> string"
  InterpolateDominantWaveDirection :: "BuoyItem \<Rightarrow> BuoyItem"

text \<open>
The zero value \<^verbatim>\<open>BuoyItem{}\<close>.
\<close>

definition zero_BuoyItem :: BuoyItem where
  "zero_BuoyItem = \<lparr>BuoyItem.Date = 0, WindDirection = 0, WindSpeed = 0, WindGust = 0,
     SignificantWaveHeight = 0, DominantWavePeriod = 0, AveragePeriod = 0,
     DominantWaveDirection = 0, MeanWaveDirection = 0,
     SwellWaveHeight = 0, SwellWavePeriod = 0, SwellWaveDirection = [],
     WindSwellWaveHeight = 0, WindSwellWavePeriod = 0, WindSwellDirection = [],
     Steepness = [], Pressure = 0, AirTemperature = 0, WaterTemperature = 0,
     DewpointTemperature = 0, Visibility = 0, PressureTendency = 0, WaterLevel = 0\<rparr>"

text \<open>
  \<^verbatim>\<open>func (b *BuoyItem) MergeLatestBuoyReading(newBuoyData BuoyItem)\<close>: the twelve
  assignments of \<^verbatim>\<open>buoyitem.go\<close>, lines 39--50.
\<close>

definition MergeLatestBuoyReading :: "BuoyItem \<Rightarrow> BuoyItem \<Rightarrow> BuoyItem" where
  "MergeLatestBuoyReading b newBuoyData =
     b\<lparr>BuoyItem.Date := BuoyItem.Date newBuoyData,
       BuoyItem.WindDirection := BuoyItem.WindDirection newBuoyData,
       BuoyItem.WindSpeed := BuoyItem.WindSpeed newBuoyData,
       WindGust := WindGust newBuoyData,
       SignificantWaveHeight := SignificantWaveHeight newBuoyData,
       DominantWavePeriod := DominantWavePeriod newBuoyData,
       AveragePeriod := AveragePeriod newBuoyData,
       MeanWaveDirection := MeanWaveDirection newBuoyData,
       Pressure := Pressure newBuoyData,
       AirTemperature := AirTemperature newBuoyData,
       WaterTemperature := WaterTemperature newBuoyData,
       DewpointTemperature := DewpointTemperature newBuoyData\<rparr>"

text \<open>
  \<^verbatim>\<open>strings.Split(s, sep)\<close> for a separator of one byte: the pieces of \<open>s\<close> between the
  occurrences of \<open>sep\<close>, one more than there are occurrences.
\<close>

fun Split :: "string \<Rightarrow> char \<Rightarrow> string list" where
  "Split [] sep = [[]]"
| "Split (c # cs) sep =
     (if c = sep then [] # Split cs sep
      else (case Split cs sep of [] \<Rightarrow> [[c]] | x # xs \<Rightarrow> (c # x) # xs))"

definition latestDateLayout :: string where
  "latestDateLayout = ''1504 MST 01/02/06''"

text \<open>
  \<^verbatim>\<open>ParseRawLatestBuoyData\<close>, lines 133--174: the body of the loop over the lines of the
  report. The state is the item under construction with the flags \<^verbatim>\<open>swellPeriodRead\<close> and
  \<^verbatim>\<open>swellDirectionRead\<close>.
\<close>

definition parseLatestLine ::
  "BuoyExternals \<Rightarrow> BuoyItem \<times> bool \<times> bool \<Rightarrow> string \<Rightarrow> BuoyItem \<times> bool \<times> bool" where
  "parseLatestLine L state line =
     (case state of (buoyDataItem, swellPeriodRead, swellDirectionRead) \<Rightarrow>
        let comps = Split line (CHR '':'') in
        if length comps < 2 then state
        else
          let variable = comps ! 0;
              rawValue = hd (Split (TrimSpace L (comps ! 1)) (CHR '' ''))
          in
            if variable = ''Seas'' then
              (buoyDataItem\<lparr>SignificantWaveHeight := ParseFloat L rawValue\<rparr>,
               swellPeriodRead, swellDirectionRead)
            else if variable = ''Peak Period'' then
              (buoyDataItem\<lparr>DominantWavePeriod := ParseFloat L rawValue\<rparr>,
               swellPeriodRead, swellDirectionRead)
            else if variable = ''Pres'' then
              (buoyDataItem\<lparr>Pressure := ParseFloat L rawValue\<rparr>,
               swellPeriodRead, swellDirectionRead)
            else if variable = ''Air Temp'' then
              (buoyDataItem\<lparr>AirTemperature := ParseFloat L rawValue\<rparr>,
               swellPeriodRead, swellDirectionRead)
            else if variable = ''Water Temp'' then
              (buoyDataItem\<lparr>WaterTemperature := ParseFloat L rawValue\<rparr>,
               swellPeriodRead, swellDirectionRead)
            else if variable = ''Dew Point'' then
              (buoyDataItem\<lparr>DewpointTemperature := ParseFloat L rawValue\<rparr>,
               swellPeriodRead, swellDirectionRead)
            else if variable = ''Swell'' then
              (buoyDataItem\<lparr>SwellWaveHeight := ParseFloat L rawValue\<rparr>,
               swellPeriodRead, swellDirectionRead)
            else if variable = ''Wind Wave'' then
              (buoyDataItem\<lparr>BuoyItem.WindSwellWaveHeight := ParseFloat L rawValue\<rparr>,
               swellPeriodRead, swellDirectionRead)
            else if variable = ''Period'' then
              (if \<not> swellPeriodRead then
                 (buoyDataItem\<lparr>SwellWavePeriod := ParseFloat L rawValue\<rparr>,
                  True, swellDirectionRead)
               else
                 (buoyDataItem\<lparr>WindSwellWavePeriod := ParseFloat L rawValue\<rparr>,
                  swellPeriodRead, swellDirectionRead))
            else if variable = ''Direction'' then
              (if \<not> swellDirectionRead then
                 (buoyDataItem\<lparr>SwellWaveDirection := rawValue\<rparr>,
                  swellPeriodRead, True)
               else
                 (buoyDataItem\<lparr>BuoyItem.WindSwellDirection := rawValue\<rparr>,
                  swellPeriodRead, swellDirectionRead))
            else state)"

text \<open>
  \<^verbatim>\<open>ParseRawLatestBuoyData\<close>, lines 124--177: the item parsed from the lines of a report
  of at least six lines.
\<close>

definition latestBuoyItem :: "BuoyExternals \<Rightarrow> string list \<Rightarrow> BuoyItem" where
  "latestBuoyItem L rawBuoyLineData =
     InterpolateDominantWaveDirection L
       (fst (foldl (parseLatestLine L)
               (zero_BuoyItem\<lparr>BuoyItem.Date :=
                   Time_Parse L latestDateLayout (rawBuoyLineData ! 4)\<rparr>, False, False)
               (drop 5 rawBuoyLineData)))"

text \<open>
  \<^verbatim>\<open>func (b *Buoy) ParseRawLatestBuoyData(rawBuoyData string) error\<close>: the buoy as the call
  leaves it, and the error (\<^term>\<open>None\<close> for \<^verbatim>\<open>nil\<close>).
\<close>

definition ParseRawLatestBuoyData ::
  "BuoyExternals \<Rightarrow> string \<Rightarrow> Buoy \<Rightarrow> Buoy \<times> string option" where
  "ParseRawLatestBuoyData L rawBuoyData b =
     (let rawBuoyLineData = Split rawBuoyData (CHR 0x0A) in
      if length rawBuoyLineData < 6 then (b, Some ''Could not parse latest buoy data'')
      else
        let buoyDataItem = latestBuoyItem L rawBuoyLineData in
        case BuoyData b of
          None \<Rightarrow> (b\<lparr>BuoyData := Some [buoyDataItem]\<rparr>, None)
        | Some [] \<Rightarrow> (b\<lparr>BuoyData := Some [buoyDataItem]\<rparr>, None)
        | Some (first # rest) \<Rightarrow>
            (b\<lparr>BuoyData := Some (MergeLatestBuoyReading first buoyDataItem # rest)\<rparr>, None))"

text \<open>
  \<^verbatim>\<open>FindConditionsForDateAndTime\<close>, lines 351--357: the scan of the observations from
  index 1 on.
\<close>

fun findLoop :: "int \<Rightarrow> BuoyItem list \<Rightarrow> BuoyItem \<times> int \<Rightarrow> BuoyItem \<times> int" where
  "findLoop date [] (minBuoy, minDuration) = (minBuoy, minDuration)"
| "findLoop date (item # rest) (minBuoy, minDuration) =
     (let newDuration = Time_Sub date (BuoyItem.Date item) in
      if \<bar>Duration_Seconds newDuration\<bar> < \<bar>Duration_Seconds minDuration\<bar>
      then findLoop date rest (item, newDuration)
      else findLoop date rest (minBuoy, minDuration))"

text \<open>
  \<^verbatim>\<open>func (b *Buoy) FindConditionsForDateAndTime(date time.Time) (BuoyItem, time.Duration)\<close>.
\<close>

definition FindConditionsForDateAndTime :: "Buoy \<Rightarrow> int \<Rightarrow> BuoyItem \<times> int" where
  "FindConditionsForDateAndTime b date =
     (case BuoyData b of
        None \<Rightarrow> (zero_BuoyItem, -1)
      | Some [] \<Rightarrow> (zero_BuoyItem, -1)
      | Some (first # rest) \<Rightarrow>
          findLoop date rest (first, Time_Sub date (BuoyItem.Date first)))"

section \<open>Vocabulary of the properties\<close>

text \<open>
  The swells of a wave record by their number of declaration (1, 2, 3), and their minimum
  and maximum breaking heights as \<^verbatim>\<open>NewSurfForecast\<close> computes them.
\<close>

definition swellOf :: "Collaborators \<Rightarrow> WaveForecastItem \<Rightarrow> nat \<Rightarrow> Swell" where
  "swellOf X w k = (if k = 1 then swellOneOf X w else if k = 2 then swellTwoOf X w else swellThreeOf X w)"

definition swellMin :: "Collaborators \<Rightarrow> real \<Rightarrow> real \<Rightarrow> real \<Rightarrow> WaveForecastItem \<Rightarrow> nat \<Rightarrow> real" where
  "swellMin X beachAngle elevation beachSlope w k =
     fst (BreakingWaveHeights X (swellOf X w k) beachAngle elevation beachSlope)"

definition swellMax :: "Collaborators \<Rightarrow> real \<Rightarrow> real \<Rightarrow> real \<Rightarrow> WaveForecastItem \<Rightarrow> nat \<Rightarrow> real" where
  "swellMax X beachAngle elevation beachSlope w k =
     snd (BreakingWaveHeights X (swellOf X w k) beachAngle elevation beachSlope)"

text \<open>
  \<open>rankedAhead (i, a) (j, b)\<close>: a swell numbered \<open>i\<close> with maximum \<open>a\<close> precedes a swell
  numbered \<open>j\<close> with maximum \<open>b\<close> when its maximum is greater or, for equal maxima, when it
  is declared later.
\<close>

definition rankedAhead :: "nat \<times> real \<Rightarrow> nat \<times> real \<Rightarrow> bool" where
  "rankedAhead a b \<longleftrightarrow> snd a > snd b \<or> (snd a = snd b \<and> fst a > fst b)"

section \<open>Sample inputs\<close>

text \<open>
  Concrete values at which the theorems are instantiated. \<open>stubs\<close> and \<open>buoy_stubs\<close>
  stand in for the functions that are parameters of the model.
\<close>

definition stubs :: Collaborators where
  "stubs = \<lparr>DegreeToDirection = (\<lambda>d. if d < 180 then ''E'' else ''W''),
            BreakingWaveHeights = (\<lambda>s beachAngle depth beachSlope.
               (WaveHeight s * Period s / 20, WaveHeight s * Period s / 10)),
            WaveForecast_ChangeUnits = (\<lambda>u w. w\<lparr>WaveForecast.Model := \<lparr>NOAAModel.Units = u\<rparr>\<rparr>),
            WindForecast_ChangeUnits = (\<lambda>u w. w\<lparr>WindForecast.Model := \<lparr>NOAAModel.Units = u\<rparr>\<rparr>),
            SurfForecastItem_ChangeUnits = (\<lambda>u it. it\<lparr>SurfForecastItem.WindSpeed :=
               2 * SurfForecastItem.WindSpeed it\<rparr>)\<rparr>"

definition sample_swell :: "real \<Rightarrow> real \<Rightarrow> real \<Rightarrow> Swell" where
  "sample_swell h p d = \<lparr>WaveHeight = h, Period = p, Direction = d, CompassDirection = ''S''\<rparr>"

definition sample_item :: SurfForecastItem where
  "sample_item = \<lparr>SurfForecastItem.Date = ''Monday'', Time = ''06 AM'',
     WindSpeed = 5.1, WindGustSpeed = 7, WindDirection = 190, WindCompassDirection = ''S'',
     PrimarySwellComponent = sample_swell 2 10 200,
     SecondarySwellComponent = sample_swell 1 6 120,
     TertiarySwellComponent = sample_swell 0.3 3 200,
     MinimumBreakingHeight = 1, MaximumBreakingHeight = 2\<rparr>"

definition sample_location :: Location where
  "sample_location = \<lparr>Latitude = 41.3, Longitude = 288.6, Elevation = -5, LocationName = ''RI''\<rparr>"

definition sample_forecast :: SurfForecast where
  "sample_forecast = \<lparr>SurfForecast.Location = sample_location, BeachAngle = 180, BeachSlope = 0.02,
     Units = English, ForecastData = [sample_item],
     WaveModel = \<lparr>NOAAModel.Units = Metric\<rparr>, WaveModelLocation = sample_location,
     WindModel = \<lparr>NOAAModel.Units = Metric\<rparr>, WindModelLocation = sample_location\<rparr>"

definition sample_wave_record :: WaveForecastItem where
  "sample_wave_record = \<lparr>WaveForecastItem.Date = ''Monday'', Time = ''06 AM'',
     SurfaceWindSpeed = 5.1, SurfaceWindDirection = 190,
     PrimarySwellWaveHeight = 2, PrimarySwellPeriod = 10, PrimarySwellDirection = 200,
     SecondarySwellWaveHeight = 1, SecondarySwellPeriod = 6, SecondarySwellDirection = 120,
     WindSwellWaveHeight = 0.3, WindSwellPeriod = 3, WindSwellDirection = 200\<rparr>"

definition sample_tied_record :: WaveForecastItem where
  "sample_tied_record = \<lparr>WaveForecastItem.Date = ''Monday'', Time = ''09 AM'',
     SurfaceWindSpeed = 5.1, SurfaceWindDirection = 190,
     PrimarySwellWaveHeight = 2, PrimarySwellPeriod = 5, PrimarySwellDirection = 200,
     SecondarySwellWaveHeight = 1, SecondarySwellPeriod = 10, SecondarySwellDirection = 120,
     WindSwellWaveHeight = 5, WindSwellPeriod = 2, WindSwellDirection = 90\<rparr>"

definition sample_wind_record :: WindForecastItem where
  "sample_wind_record = \<lparr>WindForecastItem.WindSpeed = 4, WindGustSpeed = 6, WindDirection = 270\<rparr>"

definition sample_wave :: "UnitSystem \<Rightarrow> WaveForecastItem list option \<Rightarrow> WaveForecast" where
  "sample_wave u ws = \<lparr>WaveForecast.Model = \<lparr>NOAAModel.Units = u\<rparr>,
     Location = sample_location, ForecastData = ws\<rparr>"

definition sample_wind :: "UnitSystem \<Rightarrow> WindForecastItem list option \<Rightarrow> WindForecast" where
  "sample_wind u ws = \<lparr>WindForecast.Model = \<lparr>NOAAModel.Units = u\<rparr>,
     Location = sample_location, ForecastData = ws\<rparr>"

definition observation_at :: "int \<Rightarrow> BuoyItem" where
  "observation_at t = zero_BuoyItem\<lparr>BuoyItem.Date := t\<rparr>"

definition sample_buoy :: "BuoyItem list option \<Rightarrow> Buoy" where
  "sample_buoy items = \<lparr>Buoy.Location = Some sample_location, StationID = ''44097'',
     Owner = ''NDBC'', PGM = ''IOOS Partners'', Type = ''buoy'', Active = ''y'', Currents = ''n'',
     WaterQuality = ''n'', Dart = ''n'', BuoyData = items\<rparr>"

definition buoy_stubs :: BuoyExternals where
  "buoy_stubs = \<lparr>Time_Parse = (\<lambda>layout v. int (length v)),
     ParseFloat = (\<lambda>s. real (length s)),
     TrimSpace = (\<lambda>s. rev (dropWhile (\<lambda>c. c = CHR '' '') (rev (dropWhile (\<lambda>c. c = CHR '' '') s)))),
     InterpolateDominantWaveDirection = (\<lambda>item. item\<lparr>DominantWaveDirection := 180\<rparr>)\<rparr>"

definition sample_latest_report :: string where
  "sample_latest_report = concat (map (\<lambda>line. line @ [CHR 0x0A])
     [''Station 44097'', ''40.967 N 71.126 W'', '''', ''6:26 am EDT'', ''1026 GMT 07/05/15'',
      ''Seas: 3.0 ft'', ''Peak Period: 8 sec'', ''Swell: 2.6 ft'', ''Period: 8.3 sec'',
      ''Direction: SSE'', ''Wind Wave: 1.3 ft'', ''Period: 4.0 sec'', ''Direction: SSW''])"

definition sample_prior_observation :: BuoyItem where
  "sample_prior_observation = zero_BuoyItem\<lparr>BuoyItem.Date := 0,
     BuoyItem.WindSpeed := 7, SignificantWaveHeight := 2,
     SwellWaveHeight := 1, SwellWavePeriod := 9, SwellWaveDirection := ''S'',
     BuoyItem.WindSwellWaveHeight := 0.5, WindSwellWavePeriod := 4,
     BuoyItem.WindSwellDirection := ''W'', Steepness := ''SWELL''\<rparr>"

definition sample_latest_observation :: BuoyItem where
  "sample_latest_observation = zero_BuoyItem\<lparr>BuoyItem.Date := 3600000000000,
     SignificantWaveHeight := 3, DominantWavePeriod := 8,
     SwellWaveHeight := 2.6, SwellWavePeriod := 8.3, SwellWaveDirection := ''SSE'',
     BuoyItem.WindSwellWaveHeight := 1.3, WindSwellWavePeriod := 4.0,
     BuoyItem.WindSwellDirection := ''SSW''\<rparr>"

lemmas synth_defs = NewSurfForecast_def synthesize_def waveForecastToMetric_def
  windForecastToMetric_def surfForecastItemFor_def fillWind_def

section \<open>Unit conversion: properties\<close>

text \<open>
  Claim C9. For every surf forecast \<open>s\<close> and unit system \<open>u\<close>, if the units of \<open>s\<close> are
  already \<open>u\<close> then \<open>ChangeUnits u\<close> leaves \<open>s\<close> as it is: no item is converted and no field
  changes, whatever the per-item conversion does.
\<close>

theorem ChangeUnits_same_units_noop:
  assumes "SurfForecast.Units s = u"
  shows "SurfForecast_ChangeUnits X u s = s"
  using assms by (simp add: SurfForecast_ChangeUnits_def)

theorem ChangeUnits_same_units_noop_witness:
  "SurfForecast.Units sample_forecast = English \<and>
   SurfForecast_ChangeUnits stubs English sample_forecast = sample_forecast"
proof -
  have u: "SurfForecast.Units sample_forecast = English"
    by (simp add: sample_forecast_def)
  show ?thesis
    using u ChangeUnits_same_units_noop [OF u, of stubs] by simp
qed

section \<open>Forecast synthesis: properties\<close>

subsection \<open>The loop and the result of the synthesis\<close>

lemma forecastLoop_Inr:
  assumes "forecastLoop body waveData is out = Inr out'" and "distinct is"
  shows "length out' = length out
    \<and> (\<forall>i\<in>set is. \<exists>item. body i (waveData ! i) = Inr item \<and> (i < length out \<longrightarrow> out' ! i = item))
    \<and> (\<forall>j. j \<notin> set is \<longrightarrow> out' ! j = out ! j)"
  using assms
proof (induction "is" arbitrary: out)
  case Nil
  then show ?case by simp
next
  case (Cons i "is")
  from Cons.prems obtain item where b: "body i (waveData ! i) = Inr item"
    and r: "forecastLoop body waveData is (out[i := item]) = Inr out'"
    by (auto split: sum.splits)
  from Cons.prems have d: "distinct is" and ni: "i \<notin> set is" by simp_all
  from Cons.IH [OF r d] have
    l: "length out' = length (out[i := item])" and
    a: "\<forall>k\<in>set is. \<exists>item'. body k (waveData ! k) = Inr item' \<and> (k < length (out[i := item]) \<longrightarrow> out' ! k = item')" and
    f: "\<forall>j. j \<notin> set is \<longrightarrow> out' ! j = (out[i := item]) ! j"
    by blast+
  from f ni have "out' ! i = (out[i := item]) ! i" by blast
  then have i: "i < length out \<longrightarrow> out' ! i = item" by simp
  show ?case
  proof (intro conjI ballI allI impI)
    show "length out' = length out" using l by simp
  next
    fix k assume "k \<in> set (i # is)"
    then show "\<exists>item. body k (waveData ! k) = Inr item \<and> (k < length out \<longrightarrow> out' ! k = item)"
      using a b i by auto
  next
    fix j assume "j \<notin> set (i # is)"
    then show "out' ! j = out ! j" using f by simp
  qed
qed

lemma forecastLoop_total:
  assumes "\<forall>i\<in>set is. \<exists>item. body i (waveData ! i) = Inr item"
  shows "\<exists>out'. forecastLoop body waveData is out = Inr out'"
  using assms
  by (induction "is" arbitrary: out) (auto split: sum.splits)

lemma forecastLoop_panic:
  assumes "i \<in> set is" and "body i (waveData ! i) = Inl p"
  shows "\<exists>q. forecastLoop body waveData is out = Inl q"
  using assms
  by (induction "is" arbitrary: out) (auto split: sum.splits)

lemma orderSwells_wind:
  "SurfForecastItem.WindSpeed (orderSwells a b c item) = SurfForecastItem.WindSpeed item"
  "SurfForecastItem.WindGustSpeed (orderSwells a b c item) = SurfForecastItem.WindGustSpeed item"
  "SurfForecastItem.WindDirection (orderSwells a b c item) = SurfForecastItem.WindDirection item"
  "WindCompassDirection (orderSwells a b c item) = WindCompassDirection item"
  "SurfForecastItem.Date (orderSwells a b c item) = SurfForecastItem.Date item"
  "SurfForecastItem.Time (orderSwells a b c item) = SurfForecastItem.Time item"
  by (cases a; cases b; cases c; simp)+

lemma synthesize_nil_iff:
  "synthesize X loc beachAngle beachSlope wave wind = Inr None \<longleftrightarrow>
     WaveForecast.ForecastData wave = None \<or> WaveForecast.ForecastData wave = Some []"
  by (auto simp: synthesize_def Let_def split: option.splits sum.splits)

lemma synthesize_Some:
  assumes "synthesize X loc beachAngle beachSlope wave wind = Inr (Some sf)"
  shows "\<exists>waveData. WaveForecast.ForecastData wave = Some waveData \<and> waveData \<noteq> []
     \<and> length (SurfForecast.ForecastData sf) = length waveData
     \<and> (\<forall>i<length waveData.
           surfForecastItemFor X beachAngle (Elevation (WaveForecast.Location wave)) beachSlope
             (case WindForecast.ForecastData wind of None \<Rightarrow> True | Some windData \<Rightarrow> length windData < 1)
             (case WindForecast.ForecastData wind of None \<Rightarrow> [] | Some windData \<Rightarrow> windData)
             i (waveData ! i) = Inr (SurfForecast.ForecastData sf ! i))
     \<and> SurfForecast.Units sf = Metric
     \<and> SurfForecast.Location sf = loc \<and> BeachAngle sf = beachAngle \<and> BeachSlope sf = beachSlope
     \<and> WaveModel sf = WaveForecast.Model wave \<and> WaveModelLocation sf = WaveForecast.Location wave
     \<and> WindModel sf = WindForecast.Model wind \<and> WindModelLocation sf = WindForecast.Location wind"
proof -
  from assms obtain waveData where wd: "WaveForecast.ForecastData wave = Some waveData"
    by (auto simp: synthesize_def Let_def split: option.splits)
  from assms wd have ne: "waveData \<noteq> []"
    by (auto simp: synthesize_def Let_def split: if_splits)
  let ?body = "surfForecastItemFor X beachAngle (Elevation (WaveForecast.Location wave)) beachSlope
             (case WindForecast.ForecastData wind of None \<Rightarrow> True | Some windData \<Rightarrow> length windData < 1)
             (case WindForecast.ForecastData wind of None \<Rightarrow> [] | Some windData \<Rightarrow> windData)"
  from assms wd ne obtain items where
    loop: "forecastLoop ?body waveData [0..<length waveData]
             (replicate (length waveData) zero_SurfForecastItem) = Inr items"
    and sf: "sf = \<lparr>SurfForecast.Location = loc, BeachAngle = beachAngle, BeachSlope = beachSlope,
             Units = Metric, ForecastData = items,
             WaveModel = WaveForecast.Model wave,
             WaveModelLocation = WaveForecast.Location wave,
             WindModel = WindForecast.Model wind,
             WindModelLocation = WindForecast.Location wind\<rparr>"
    by (auto simp: synthesize_def Let_def split: sum.splits)
  from forecastLoop_Inr [OF loop] have
    len: "length items = length waveData" and
    its: "\<forall>i\<in>set [0..<length waveData]. \<exists>item. ?body i (waveData ! i) = Inr item \<and>
            (i < length (replicate (length waveData) zero_SurfForecastItem) \<longrightarrow> items ! i = item)"
    by simp_all
  have "\<forall>i<length waveData. ?body i (waveData ! i) = Inr (items ! i)"
  proof (intro allI impI)
    fix i assume "i < length waveData"
    with its show "?body i (waveData ! i) = Inr (items ! i)" by fastforce
  qed
  with wd ne len sf show ?thesis by simp
qed

lemma synthesize_total:
  assumes "WaveForecast.ForecastData wave = Some waveData" and "waveData \<noteq> []"
    and "WindForecast.ForecastData wind = None \<or> WindForecast.ForecastData wind = Some []
         \<or> (\<exists>windData. WindForecast.ForecastData wind = Some windData \<and> length waveData \<le> length windData)"
  shows "\<exists>sf. synthesize X loc beachAngle beachSlope wave wind = Inr (Some sf)"
proof -
  let ?body = "surfForecastItemFor X beachAngle (Elevation (WaveForecast.Location wave)) beachSlope
             (case WindForecast.ForecastData wind of None \<Rightarrow> True | Some windData \<Rightarrow> length windData < 1)
             (case WindForecast.ForecastData wind of None \<Rightarrow> [] | Some windData \<Rightarrow> windData)"
  have "\<forall>i\<in>set [0..<length waveData]. \<exists>item. ?body i (waveData ! i) = Inr item"
    using assms(3) by (auto simp: surfForecastItemFor_def fillWind_def split: option.splits)
  from forecastLoop_total [of "[0..<length waveData]" ?body waveData, OF this] obtain items where
    "forecastLoop ?body waveData [0..<length waveData]
       (replicate (length waveData) zero_SurfForecastItem) = Inr items"
    by blast
  with assms(1,2) show ?thesis
    by (simp add: synthesize_def Let_def)
qed

text \<open>
  The only panic of the loop is the index panic of the wind series, and a wind series that
  is not empty and shorter than the wave series always ends in it.
\<close>

lemma forecastLoop_Inl:
  assumes "forecastLoop body waveData is out = Inl p"
  shows "\<exists>i\<in>set is. body i (waveData ! i) = Inl p"
  using assms
  by (induction "is" arbitrary: out) (auto split: sum.splits)

lemma surfForecastItemFor_Inl:
  assumes "surfForecastItemFor X beachAngle elevation beachSlope noWindData windData i w = Inl p"
  shows "p = IndexOutOfRange \<and> \<not> noWindData \<and> length windData \<le> i"
  using assms
  by (auto simp: surfForecastItemFor_def fillWind_def split: sum.splits if_splits)

lemma synthesize_short_wind_series:
  assumes "WaveForecast.ForecastData wave = Some waveData"
    and "WindForecast.ForecastData wind = Some windData"
    and "windData \<noteq> []" and "length windData < length waveData"
  shows "synthesize X loc beachAngle beachSlope wave wind = Inl IndexOutOfRange"
proof -
  let ?body = "surfForecastItemFor X beachAngle (Elevation (WaveForecast.Location wave)) beachSlope
     False windData"
  let ?i = "length windData"
  have "?body ?i (waveData ! ?i) = Inl IndexOutOfRange"
    by (simp add: surfForecastItemFor_def fillWind_def)
  moreover have "?i \<in> set [0..<length waveData]"
    using assms(4) by simp
  ultimately obtain q where q: "forecastLoop ?body waveData [0..<length waveData]
      (replicate (length waveData) zero_SurfForecastItem) = Inl q"
    using forecastLoop_panic [of ?i "[0..<length waveData]" ?body waveData IndexOutOfRange]
    by blast
  from forecastLoop_Inl [OF q] obtain i where "?body i (waveData ! i) = Inl q" by blast
  from surfForecastItemFor_Inl [OF this] have "q = IndexOutOfRange" by simp
  with q assms show ?thesis
    by (auto simp: synthesize_def Let_def)
qed

lemma surfForecastItemFor_ordered:
  assumes "surfForecastItemFor X beachAngle elevation beachSlope noWindData windData i w = Inr item"
  shows "\<exists>item0. item =
     orderSwells
       (swellOf X w 1, swellMin X beachAngle elevation beachSlope w 1,
          swellMax X beachAngle elevation beachSlope w 1)
       (swellOf X w 2, swellMin X beachAngle elevation beachSlope w 2,
          swellMax X beachAngle elevation beachSlope w 2)
       (swellOf X w 3, swellMin X beachAngle elevation beachSlope w 3,
          swellMax X beachAngle elevation beachSlope w 3) item0"
  using assms
  by (auto simp: surfForecastItemFor_def swellOf_def swellMin_def swellMax_def split: sum.splits)

subsection \<open>Ranking of the swells\<close>

lemma orderSwells_ranking:
  fixes sw :: "nat \<Rightarrow> Swell" and mn mx :: "nat \<Rightarrow> real" and item :: SurfForecastItem
  defines "r \<equiv> orderSwells (sw 1, mn 1, mx 1) (sw 2, mn 2, mx 2) (sw 3, mn 3, mx 3) item"
  shows "\<exists>p s t. {p, s, t} = {1, 2, 3}
     \<and> PrimarySwellComponent r = sw p \<and> SecondarySwellComponent r = sw s
     \<and> TertiarySwellComponent r = sw t
     \<and> MinimumBreakingHeight r = mn p \<and> MaximumBreakingHeight r = mx p
     \<and> rankedAhead (p, mx p) (s, mx s) \<and> rankedAhead (s, mx s) (t, mx t)"
proof -
  consider (a) "mx 2 < mx 1" "mx 3 < mx 1" "mx 3 < mx 2"
    | (b) "mx 2 < mx 1" "mx 3 < mx 1" "\<not> mx 3 < mx 2"
    | (c) "mx 2 < mx 1" "\<not> mx 3 < mx 1"
    | (d) "\<not> mx 2 < mx 1" "mx 3 < mx 2" "mx 3 < mx 1"
    | (e) "\<not> mx 2 < mx 1" "mx 3 < mx 2" "\<not> mx 3 < mx 1"
    | (f) "\<not> mx 2 < mx 1" "\<not> mx 3 < mx 2"
    by blast
  then show ?thesis
  proof cases
    case a
    then show ?thesis unfolding r_def
      by (intro exI [of _ 1] exI [of _ 2] exI [of _ 3]) (simp add: rankedAhead_def)
  next
    case b
    then show ?thesis unfolding r_def
      by (intro exI [of _ 1] exI [of _ 3] exI [of _ 2]) (auto simp: rankedAhead_def)
  next
    case c
    then show ?thesis unfolding r_def
      by (intro exI [of _ 3] exI [of _ 1] exI [of _ 2]) (auto simp: rankedAhead_def)
  next
    case d
    then show ?thesis unfolding r_def
      by (intro exI [of _ 2] exI [of _ 1] exI [of _ 3]) (auto simp: rankedAhead_def)
  next
    case e
    then show ?thesis unfolding r_def
      by (intro exI [of _ 2] exI [of _ 3] exI [of _ 1]) (auto simp: rankedAhead_def)
  next
    case f
    then show ?thesis unfolding r_def
      by (intro exI [of _ 3] exI [of _ 2] exI [of _ 1]) (auto simp: rankedAhead_def)
  qed
qed

lemma orderSwells_ties:
  fixes sw :: "nat \<Rightarrow> Swell" and mn mx :: "nat \<Rightarrow> real" and item :: SurfForecastItem
  defines "r \<equiv> orderSwells (sw 1, mn 1, mx 1) (sw 2, mn 2, mx 2) (sw 3, mn 3, mx 3) item"
  shows "mx 1 = mx 2 \<and> mx 2 = mx 3 \<longrightarrow>
       PrimarySwellComponent r = sw 3 \<and> SecondarySwellComponent r = sw 2
       \<and> TertiarySwellComponent r = sw 1"
    and "mx 1 = mx 2 \<and> mx 3 < mx 2 \<longrightarrow>
       PrimarySwellComponent r = sw 2 \<and> SecondarySwellComponent r = sw 1
       \<and> TertiarySwellComponent r = sw 3"
    and "mx 1 = mx 2 \<and> mx 2 < mx 3 \<longrightarrow>
       PrimarySwellComponent r = sw 3 \<and> SecondarySwellComponent r = sw 2
       \<and> TertiarySwellComponent r = sw 1"
  unfolding r_def by simp_all

text \<open>
  Claim C1, as the code has it. For every time step \<open>i\<close> of a synthesis that returns a
  forecast, the primary, secondary and tertiary components of item \<open>i\<close> are the three swells
  of wave record \<open>i\<close>, each once, in non-increasing order of maximum breaking height, and the
  item's minimum and maximum breaking height are those of the primary component. Where maxima
  are equal the later-declared swell is ranked ahead: the order is strict and total on the
  pairs (maximum, number of declaration). In particular, when all three maxima are equal
  the primary is swell 3, the secondary swell 2 and the tertiary swell 1; when only swell 1
  and swell 2 tie, swell 2 is ranked ahead of swell 1 (primary and secondary when swell 3 is
  below them, secondary and tertiary when it is above).
\<close>

theorem NewSurfForecast_swell_ranking:
  fixes X :: Collaborators and waveData :: "WaveForecastItem list" and sf :: SurfForecast
  assumes "NewSurfForecast X loc beachAngle beachSlope (Some wave) (Some wind) =
             (Some wave', wind', Inr (Some sf))"
    and "WaveForecast.ForecastData wave' = Some waveData" and "i < length waveData"
  defines "item \<equiv> SurfForecast.ForecastData sf ! i"
    and "sw \<equiv> swellOf X (waveData ! i)"
    and "mn \<equiv> swellMin X beachAngle (Elevation (WaveForecast.Location wave')) beachSlope (waveData ! i)"
    and "mx \<equiv> swellMax X beachAngle (Elevation (WaveForecast.Location wave')) beachSlope (waveData ! i)"
  shows "(\<exists>p s t. {p, s, t} = {1, 2, 3}
       \<and> PrimarySwellComponent item = sw p \<and> SecondarySwellComponent item = sw s
       \<and> TertiarySwellComponent item = sw t
       \<and> MinimumBreakingHeight item = mn p \<and> MaximumBreakingHeight item = mx p
       \<and> rankedAhead (p, mx p) (s, mx s) \<and> rankedAhead (s, mx s) (t, mx t))
     \<and> (mx 1 = mx 2 \<and> mx 2 = mx 3 \<longrightarrow>
          PrimarySwellComponent item = sw 3 \<and> SecondarySwellComponent item = sw 2
          \<and> TertiarySwellComponent item = sw 1)
     \<and> (mx 1 = mx 2 \<and> mx 3 < mx 2 \<longrightarrow>
          PrimarySwellComponent item = sw 2 \<and> SecondarySwellComponent item = sw 1
          \<and> TertiarySwellComponent item = sw 3)
     \<and> (mx 1 = mx 2 \<and> mx 2 < mx 3 \<longrightarrow>
          PrimarySwellComponent item = sw 3 \<and> SecondarySwellComponent item = sw 2
          \<and> TertiarySwellComponent item = sw 1)"
proof -
  from assms(1) have "synthesize X loc beachAngle beachSlope wave' (windForecastToMetric X wind)
      = Inr (Some sf)"
    by (auto simp: NewSurfForecast_def)
  from synthesize_Some [OF this] assms(2,3) obtain nw wd where
    "surfForecastItemFor X beachAngle (Elevation (WaveForecast.Location wave')) beachSlope
       nw wd i (waveData ! i) = Inr item"
    unfolding item_def by auto
  from surfForecastItemFor_ordered [OF this] obtain item0 where
    item: "item = orderSwells (sw 1, mn 1, mx 1) (sw 2, mn 2, mx 2) (sw 3, mn 3, mx 3) item0"
    unfolding sw_def mn_def mx_def by blast
  show ?thesis
    unfolding item
    using orderSwells_ranking [of sw mn mx item0] orderSwells_ties [of mx sw mn item0]
    by blast
qed

theorem NewSurfForecast_swell_ranking_witness:
  "\<exists>sf. NewSurfForecast stubs sample_location 180 0.02
           (Some (sample_wave Metric (Some [sample_tied_record])))
           (Some (sample_wind Metric None))
         = (Some (sample_wave Metric (Some [sample_tied_record])),
            Some (sample_wind Metric None), Inr (Some sf))
       \<and> PrimarySwellComponent (SurfForecast.ForecastData sf ! 0)
           = swellThreeOf stubs sample_tied_record
       \<and> SecondarySwellComponent (SurfForecast.ForecastData sf ! 0)
           = swellTwoOf stubs sample_tied_record
       \<and> TertiarySwellComponent (SurfForecast.ForecastData sf ! 0)
           = swellOneOf stubs sample_tied_record"
proof -
  obtain sf where sf: "NewSurfForecast stubs sample_location 180 0.02
           (Some (sample_wave Metric (Some [sample_tied_record])))
           (Some (sample_wind Metric None))
         = (Some (sample_wave Metric (Some [sample_tied_record])),
            Some (sample_wind Metric None), Inr (Some sf))"
    by (simp add: synth_defs sample_wave_def sample_wind_def)
  have tie: "swellMax stubs 180 (Elevation (WaveForecast.Location
                (sample_wave Metric (Some [sample_tied_record])))) 0.02
                ([sample_tied_record] ! 0) 1
           = swellMax stubs 180 (Elevation (WaveForecast.Location
                (sample_wave Metric (Some [sample_tied_record])))) 0.02
                ([sample_tied_record] ! 0) 2
         \<and> swellMax stubs 180 (Elevation (WaveForecast.Location
                (sample_wave Metric (Some [sample_tied_record])))) 0.02
                ([sample_tied_record] ! 0) 2
           = swellMax stubs 180 (Elevation (WaveForecast.Location
                (sample_wave Metric (Some [sample_tied_record])))) 0.02
                ([sample_tied_record] ! 0) 3"
    by (simp add: swellMax_def swellOf_def swellOneOf_def swellTwoOf_def swellThreeOf_def
          zero_Swell_def stubs_def sample_tied_record_def)
  have wd: "WaveForecast.ForecastData (sample_wave Metric (Some [sample_tied_record]))
      = Some [sample_tied_record]"
    by (simp add: sample_wave_def)
  from NewSurfForecast_swell_ranking [OF sf wd, of 0] tie
  have "PrimarySwellComponent (SurfForecast.ForecastData sf ! 0)
           = swellOf stubs ([sample_tied_record] ! 0) 3
       \<and> SecondarySwellComponent (SurfForecast.ForecastData sf ! 0)
           = swellOf stubs ([sample_tied_record] ! 0) 2
       \<and> TertiarySwellComponent (SurfForecast.ForecastData sf ! 0)
           = swellOf stubs ([sample_tied_record] ! 0) 1"
    by simp
  with sf show ?thesis by (auto simp: swellOf_def)
qed

text \<open>
  The ranking block at equal maxima. With three different swells of maximum 2 the primary
  component is swell three, not swell one; with swells one and two tied at 2 above swell
  three at 1, swell two is primary and swell one secondary.
\<close>

theorem tie_ranks_later_swell_first_counterexample:
  "PrimarySwellComponent
     (orderSwells (sample_swell 2 5 200, 1, 2) (sample_swell 1 10 120, 1, 2)
        (sample_swell 5 2 90, 1, 2) zero_SurfForecastItem) = sample_swell 5 2 90
   \<and> PrimarySwellComponent
     (orderSwells (sample_swell 2 5 200, 1, 2) (sample_swell 1 10 120, 1, 2)
        (sample_swell 5 2 90, 1, 2) zero_SurfForecastItem) \<noteq> sample_swell 2 5 200
   \<and> PrimarySwellComponent
     (orderSwells (sample_swell 2 5 200, 1, 2) (sample_swell 1 10 120, 1, 2)
        (sample_swell 5 2 90, 0, 1) zero_SurfForecastItem) = sample_swell 1 10 120
   \<and> SecondarySwellComponent
     (orderSwells (sample_swell 2 5 200, 1, 2) (sample_swell 1 10 120, 1, 2)
        (sample_swell 5 2 90, 0, 1) zero_SurfForecastItem) = sample_swell 2 5 200
   \<and> sample_swell 1 10 120 \<noteq> sample_swell 2 5 200"
  by (simp add: sample_swell_def)

subsection \<open>Wind series\<close>

text \<open>
  Claim C2. A wind series that is present, not empty and shorter than the wave series: the
  claim promises the fallback at each index beyond the wind series. Here the wave series has
  two records and the wind series one, in metric units. The flag \<^verbatim>\<open>noWindData\<close> is false for
  the whole run, index 0 is filled from the wind series, and the read
  \<^verbatim>\<open>windForecast.ForecastData[1]\<close> panics: no forecast is returned, whatever the
  collaborators, location and beach are.
\<close>

theorem NewSurfForecast_short_wind_series_panics:
  "NewSurfForecast X loc beachAngle beachSlope
     (Some (sample_wave Metric (Some [sample_wave_record, sample_tied_record])))
     (Some (sample_wind Metric (Some [sample_wind_record])))
   = (Some (sample_wave Metric (Some [sample_wave_record, sample_tied_record])),
      Some (sample_wind Metric (Some [sample_wind_record])),
      Inl IndexOutOfRange)"
  by (simp add: synth_defs sample_wave_def sample_wind_def)

text \<open>
  Claim C3. The claim promises an output series for every non-empty wave series. Here the
  wave series has three records and the wind series two: the call ends in the index panic of
  claim C2 and produces neither \<^verbatim>\<open>nil\<close> nor a forecast.
\<close>

theorem NewSurfForecast_no_output_for_nonempty_wave_series:
  "WaveForecast.ForecastData
     (sample_wave Metric (Some [sample_wave_record, sample_wave_record, sample_wave_record]))
     = Some [sample_wave_record, sample_wave_record, sample_wave_record]
   \<and> snd (snd (NewSurfForecast X loc beachAngle beachSlope
       (Some (sample_wave Metric (Some [sample_wave_record, sample_wave_record, sample_wave_record])))
       (Some (sample_wind Metric (Some [sample_wind_record, sample_wind_record])))))
     = Inl IndexOutOfRange"
  by (simp add: synth_defs sample_wave_def sample_wind_def)

text \<open>
  Claim C7. Let the call leave the wave forecast as \<open>wave'\<close> and the wind forecast as
  \<open>wind'\<close>. If the wave series is not empty and the wind series is \<^verbatim>\<open>nil\<close> or empty, the call
  returns a forecast with one item per wave record, and every item has gust speed \<open>-1\<close> and
  the surface wind speed and direction of its wave record. Whenever a forecast is returned
  and the wind series has an entry at index \<open>i\<close>, item \<open>i\<close> has the wind speed, gust speed
  and wind direction of that entry.
\<close>

theorem NewSurfForecast_wind_fields:
  assumes "NewSurfForecast X loc beachAngle beachSlope (Some wave) (Some wind) =
             (Some wave', Some wind', outcome)"
  shows "(\<forall>waveData. WaveForecast.ForecastData wave' = Some waveData \<and> waveData \<noteq> []
           \<and> (WindForecast.ForecastData wind' = None \<or> WindForecast.ForecastData wind' = Some [])
         \<longrightarrow> (\<exists>sf. outcome = Inr (Some sf)
               \<and> length (SurfForecast.ForecastData sf) = length waveData
               \<and> (\<forall>i<length waveData.
                     SurfForecastItem.WindGustSpeed (SurfForecast.ForecastData sf ! i) = -1
                   \<and> SurfForecastItem.WindSpeed (SurfForecast.ForecastData sf ! i)
                       = SurfaceWindSpeed (waveData ! i)
                   \<and> SurfForecastItem.WindDirection (SurfForecast.ForecastData sf ! i)
                       = SurfaceWindDirection (waveData ! i))))
     \<and> (\<forall>sf windData i. outcome = Inr (Some sf)
           \<and> WindForecast.ForecastData wind' = Some windData
           \<and> i < length windData \<and> i < length (SurfForecast.ForecastData sf)
         \<longrightarrow> SurfForecastItem.WindSpeed (SurfForecast.ForecastData sf ! i)
               = WindForecastItem.WindSpeed (windData ! i)
             \<and> SurfForecastItem.WindGustSpeed (SurfForecast.ForecastData sf ! i)
               = WindForecastItem.WindGustSpeed (windData ! i)
             \<and> SurfForecastItem.WindDirection (SurfForecast.ForecastData sf ! i)
               = WindForecastItem.WindDirection (windData ! i))"
proof (intro conjI)
  from assms have out: "outcome = synthesize X loc beachAngle beachSlope wave' wind'"
    by (auto simp: NewSurfForecast_def)
  show "\<forall>waveData. WaveForecast.ForecastData wave' = Some waveData \<and> waveData \<noteq> []
           \<and> (WindForecast.ForecastData wind' = None \<or> WindForecast.ForecastData wind' = Some [])
         \<longrightarrow> (\<exists>sf. outcome = Inr (Some sf)
               \<and> length (SurfForecast.ForecastData sf) = length waveData
               \<and> (\<forall>i<length waveData.
                     SurfForecastItem.WindGustSpeed (SurfForecast.ForecastData sf ! i) = -1
                   \<and> SurfForecastItem.WindSpeed (SurfForecast.ForecastData sf ! i)
                       = SurfaceWindSpeed (waveData ! i)
                   \<and> SurfForecastItem.WindDirection (SurfForecast.ForecastData sf ! i)
                       = SurfaceWindDirection (waveData ! i)))"
  proof (intro allI impI)
    fix waveData
    assume h: "WaveForecast.ForecastData wave' = Some waveData \<and> waveData \<noteq> []
           \<and> (WindForecast.ForecastData wind' = None \<or> WindForecast.ForecastData wind' = Some [])"
    then have nw: "(case WindForecast.ForecastData wind' of None \<Rightarrow> True
                    | Some windData \<Rightarrow> length windData < 1) = True"
      by auto
    from h synthesize_total [of wave' waveData wind' X loc beachAngle beachSlope]
    obtain sf where sf: "synthesize X loc beachAngle beachSlope wave' wind' = Inr (Some sf)"
      by blast
    from synthesize_Some [OF sf] h have
      len: "length (SurfForecast.ForecastData sf) = length waveData" and
      its: "\<forall>i<length waveData.
           surfForecastItemFor X beachAngle (Elevation (WaveForecast.Location wave')) beachSlope
             (case WindForecast.ForecastData wind' of None \<Rightarrow> True | Some windData \<Rightarrow> length windData < 1)
             (case WindForecast.ForecastData wind' of None \<Rightarrow> [] | Some windData \<Rightarrow> windData)
             i (waveData ! i) = Inr (SurfForecast.ForecastData sf ! i)"
      by auto
    have "\<forall>i<length waveData.
            SurfForecastItem.WindGustSpeed (SurfForecast.ForecastData sf ! i) = -1
          \<and> SurfForecastItem.WindSpeed (SurfForecast.ForecastData sf ! i)
              = SurfaceWindSpeed (waveData ! i)
          \<and> SurfForecastItem.WindDirection (SurfForecast.ForecastData sf ! i)
              = SurfaceWindDirection (waveData ! i)"
    proof (intro allI impI)
      fix i assume "i < length waveData"
      with its have "surfForecastItemFor X beachAngle (Elevation (WaveForecast.Location wave'))
             beachSlope True
             (case WindForecast.ForecastData wind' of None \<Rightarrow> [] | Some windData \<Rightarrow> windData)
             i (waveData ! i) = Inr (SurfForecast.ForecastData sf ! i)"
        unfolding nw by blast
      then have "SurfForecast.ForecastData sf ! i =
          orderSwells
            (swellOneOf X (waveData ! i), BreakingWaveHeights X (swellOneOf X (waveData ! i))
               beachAngle (Elevation (WaveForecast.Location wave')) beachSlope)
            (swellTwoOf X (waveData ! i), BreakingWaveHeights X (swellTwoOf X (waveData ! i))
               beachAngle (Elevation (WaveForecast.Location wave')) beachSlope)
            (swellThreeOf X (waveData ! i), BreakingWaveHeights X (swellThreeOf X (waveData ! i))
               beachAngle (Elevation (WaveForecast.Location wave')) beachSlope)
            (zero_SurfForecastItem\<lparr>SurfForecastItem.Date := WaveForecastItem.Date (waveData ! i),
               SurfForecastItem.Time := WaveForecastItem.Time (waveData ! i),
               SurfForecastItem.WindSpeed := SurfaceWindSpeed (waveData ! i),
               SurfForecastItem.WindGustSpeed := -1,
               SurfForecastItem.WindDirection := SurfaceWindDirection (waveData ! i),
               WindCompassDirection := DegreeToDirection X (SurfaceWindDirection (waveData ! i))\<rparr>)"
        by (simp add: surfForecastItemFor_def fillWind_def)
      then show "SurfForecastItem.WindGustSpeed (SurfForecast.ForecastData sf ! i) = -1
          \<and> SurfForecastItem.WindSpeed (SurfForecast.ForecastData sf ! i)
              = SurfaceWindSpeed (waveData ! i)
          \<and> SurfForecastItem.WindDirection (SurfForecast.ForecastData sf ! i)
              = SurfaceWindDirection (waveData ! i)"
        by (simp add: orderSwells_wind)
    qed
    with sf len out show "\<exists>sf. outcome = Inr (Some sf)
               \<and> length (SurfForecast.ForecastData sf) = length waveData
               \<and> (\<forall>i<length waveData.
                     SurfForecastItem.WindGustSpeed (SurfForecast.ForecastData sf ! i) = -1
                   \<and> SurfForecastItem.WindSpeed (SurfForecast.ForecastData sf ! i)
                       = SurfaceWindSpeed (waveData ! i)
                   \<and> SurfForecastItem.WindDirection (SurfForecast.ForecastData sf ! i)
                       = SurfaceWindDirection (waveData ! i))"
      by blast
  qed
  show "\<forall>sf windData i. outcome = Inr (Some sf)
           \<and> WindForecast.ForecastData wind' = Some windData
           \<and> i < length windData \<and> i < length (SurfForecast.ForecastData sf)
         \<longrightarrow> SurfForecastItem.WindSpeed (SurfForecast.ForecastData sf ! i)
               = WindForecastItem.WindSpeed (windData ! i)
             \<and> SurfForecastItem.WindGustSpeed (SurfForecast.ForecastData sf ! i)
               = WindForecastItem.WindGustSpeed (windData ! i)
             \<and> SurfForecastItem.WindDirection (SurfForecast.ForecastData sf ! i)
               = WindForecastItem.WindDirection (windData ! i)"
  proof (intro allI impI)
    fix sf windData i
    assume h: "outcome = Inr (Some sf)
           \<and> WindForecast.ForecastData wind' = Some windData
           \<and> i < length windData \<and> i < length (SurfForecast.ForecastData sf)"
    with out have sf: "synthesize X loc beachAngle beachSlope wave' wind' = Inr (Some sf)"
      by simp
    from synthesize_Some [OF sf] h obtain waveData where
      "i < length waveData" and
      "\<forall>i<length waveData.
           surfForecastItemFor X beachAngle (Elevation (WaveForecast.Location wave')) beachSlope
             (length windData < 1) windData i (waveData ! i)
           = Inr (SurfForecast.ForecastData sf ! i)"
      by auto
    then have "surfForecastItemFor X beachAngle (Elevation (WaveForecast.Location wave'))
        beachSlope (length windData < 1) windData i (waveData ! i)
           = Inr (SurfForecast.ForecastData sf ! i)"
      by blast
    with h have "SurfForecast.ForecastData sf ! i =
          orderSwells
            (swellOneOf X (waveData ! i), BreakingWaveHeights X (swellOneOf X (waveData ! i))
               beachAngle (Elevation (WaveForecast.Location wave')) beachSlope)
            (swellTwoOf X (waveData ! i), BreakingWaveHeights X (swellTwoOf X (waveData ! i))
               beachAngle (Elevation (WaveForecast.Location wave')) beachSlope)
            (swellThreeOf X (waveData ! i), BreakingWaveHeights X (swellThreeOf X (waveData ! i))
               beachAngle (Elevation (WaveForecast.Location wave')) beachSlope)
            (zero_SurfForecastItem\<lparr>SurfForecastItem.Date := WaveForecastItem.Date (waveData ! i),
               SurfForecastItem.Time := WaveForecastItem.Time (waveData ! i),
               SurfForecastItem.WindSpeed := WindForecastItem.WindSpeed (windData ! i),
               SurfForecastItem.WindGustSpeed := WindForecastItem.WindGustSpeed (windData ! i),
               SurfForecastItem.WindDirection := WindForecastItem.WindDirection (windData ! i),
               WindCompassDirection :=
                 DegreeToDirection X (WindForecastItem.WindDirection (windData ! i))\<rparr>)"
      by (auto simp: surfForecastItemFor_def fillWind_def split: if_splits)
    then show "SurfForecastItem.WindSpeed (SurfForecast.ForecastData sf ! i)
               = WindForecastItem.WindSpeed (windData ! i)
             \<and> SurfForecastItem.WindGustSpeed (SurfForecast.ForecastData sf ! i)
               = WindForecastItem.WindGustSpeed (windData ! i)
             \<and> SurfForecastItem.WindDirection (SurfForecast.ForecastData sf ! i)
               = WindForecastItem.WindDirection (windData ! i)"
      by (simp add: orderSwells_wind)
  qed
qed

theorem NewSurfForecast_wind_fields_witness:
  "(\<exists>sf. snd (snd (NewSurfForecast stubs sample_location 180 0.02
             (Some (sample_wave Metric (Some [sample_wave_record])))
             (Some (sample_wind Metric None)))) = Inr (Some sf)
        \<and> SurfForecastItem.WindGustSpeed (SurfForecast.ForecastData sf ! 0) = -1
        \<and> SurfForecastItem.WindSpeed (SurfForecast.ForecastData sf ! 0) = 5.1
        \<and> SurfForecastItem.WindDirection (SurfForecast.ForecastData sf ! 0) = 190)
   \<and> (\<exists>sf. snd (snd (NewSurfForecast stubs sample_location 180 0.02
             (Some (sample_wave Metric (Some [sample_wave_record])))
             (Some (sample_wind Metric (Some [sample_wind_record]))))) = Inr (Some sf)
        \<and> SurfForecastItem.WindGustSpeed (SurfForecast.ForecastData sf ! 0) = 6
        \<and> SurfForecastItem.WindSpeed (SurfForecast.ForecastData sf ! 0) = 4
        \<and> SurfForecastItem.WindDirection (SurfForecast.ForecastData sf ! 0) = 270)"
proof
  let ?wave = "sample_wave Metric (Some [sample_wave_record])"
  let ?wind = "sample_wind Metric None"
  let ?out = "snd (snd (NewSurfForecast stubs sample_location 180 0.02 (Some ?wave) (Some ?wind)))"
  have run: "NewSurfForecast stubs sample_location 180 0.02 (Some ?wave) (Some ?wind)
      = (Some ?wave, Some ?wind, ?out)"
    by (simp add: NewSurfForecast_def waveForecastToMetric_def windForecastToMetric_def
          sample_wave_def sample_wind_def)
  have pre: "WaveForecast.ForecastData ?wave = Some [sample_wave_record]
      \<and> [sample_wave_record] \<noteq> []
      \<and> (WindForecast.ForecastData ?wind = None \<or> WindForecast.ForecastData ?wind = Some [])"
    by (simp add: sample_wave_def sample_wind_def)
  from NewSurfForecast_wind_fields [OF run, THEN conjunct1] pre
  obtain sf where "?out = Inr (Some sf)"
    and "SurfForecastItem.WindGustSpeed (SurfForecast.ForecastData sf ! 0) = -1
       \<and> SurfForecastItem.WindSpeed (SurfForecast.ForecastData sf ! 0)
           = SurfaceWindSpeed ([sample_wave_record] ! 0)
       \<and> SurfForecastItem.WindDirection (SurfForecast.ForecastData sf ! 0)
           = SurfaceWindDirection ([sample_wave_record] ! 0)"
    by fastforce
  then show "\<exists>sf. ?out = Inr (Some sf)
        \<and> SurfForecastItem.WindGustSpeed (SurfForecast.ForecastData sf ! 0) = -1
        \<and> SurfForecastItem.WindSpeed (SurfForecast.ForecastData sf ! 0) = 5.1
        \<and> SurfForecastItem.WindDirection (SurfForecast.ForecastData sf ! 0) = 190"
    by (auto simp: sample_wave_record_def)
next
  let ?wave = "sample_wave Metric (Some [sample_wave_record])"
  let ?wind = "sample_wind Metric (Some [sample_wind_record])"
  let ?out = "snd (snd (NewSurfForecast stubs sample_location 180 0.02 (Some ?wave) (Some ?wind)))"
  have run: "NewSurfForecast stubs sample_location 180 0.02 (Some ?wave) (Some ?wind)
      = (Some ?wave, Some ?wind, ?out)"
    by (simp add: NewSurfForecast_def waveForecastToMetric_def windForecastToMetric_def
          sample_wave_def sample_wind_def)
  obtain sf where sf: "?out = Inr (Some sf)" and len: "0 < length (SurfForecast.ForecastData sf)"
    by (simp add: synth_defs sample_wave_def sample_wind_def)
  have pre: "WindForecast.ForecastData ?wind = Some [sample_wind_record]
      \<and> 0 < length [sample_wind_record]"
    by (simp add: sample_wind_def)
  from NewSurfForecast_wind_fields [OF run, THEN conjunct2] sf len pre
  have "SurfForecastItem.WindSpeed (SurfForecast.ForecastData sf ! 0)
               = WindForecastItem.WindSpeed ([sample_wind_record] ! 0)
             \<and> SurfForecastItem.WindGustSpeed (SurfForecast.ForecastData sf ! 0)
               = WindForecastItem.WindGustSpeed ([sample_wind_record] ! 0)
             \<and> SurfForecastItem.WindDirection (SurfForecast.ForecastData sf ! 0)
               = WindForecastItem.WindDirection ([sample_wind_record] ! 0)"
    by blast
  with sf show "\<exists>sf. ?out = Inr (Some sf)
        \<and> SurfForecastItem.WindGustSpeed (SurfForecast.ForecastData sf ! 0) = 6
        \<and> SurfForecastItem.WindSpeed (SurfForecast.ForecastData sf ! 0) = 4
        \<and> SurfForecastItem.WindDirection (SurfForecast.ForecastData sf ! 0) = 270"
    by (auto simp: sample_wind_record_def)
qed

subsection \<open>Units\<close>

text \<open>
  Claim C10. Every forecast that \<^verbatim>\<open>NewSurfForecast\<close> returns has metric units. The call leaves
  each input forecast converted by its \<^verbatim>\<open>ChangeUnits(Metric)\<close> when its model units are not
  metric, and untouched otherwise, and the synthesis reads only the forecasts so converted.
\<close>

theorem NewSurfForecast_converts_to_metric:
  "(\<forall>sf. snd (snd (NewSurfForecast X loc beachAngle beachSlope waveForecast windForecast))
          = Inr (Some sf) \<longrightarrow> SurfForecast.Units sf = Metric)
   \<and> fst (NewSurfForecast X loc beachAngle beachSlope (Some wave) (Some wind)) =
       Some (if NOAAModel.Units (WaveForecast.Model wave) \<noteq> Metric
             then WaveForecast_ChangeUnits X Metric wave else wave)
   \<and> fst (snd (NewSurfForecast X loc beachAngle beachSlope (Some wave) (Some wind))) =
       Some (if NOAAModel.Units (WindForecast.Model wind) \<noteq> Metric
             then WindForecast_ChangeUnits X Metric wind else wind)
   \<and> snd (snd (NewSurfForecast X loc beachAngle beachSlope (Some wave) (Some wind))) =
       synthesize X loc beachAngle beachSlope
         (if NOAAModel.Units (WaveForecast.Model wave) \<noteq> Metric
          then WaveForecast_ChangeUnits X Metric wave else wave)
         (if NOAAModel.Units (WindForecast.Model wind) \<noteq> Metric
          then WindForecast_ChangeUnits X Metric wind else wind)"
proof (intro conjI allI impI)
  fix sf
  assume r: "snd (snd (NewSurfForecast X loc beachAngle beachSlope waveForecast windForecast))
          = Inr (Some sf)"
  then obtain wave0 wind0 where
    "synthesize X loc beachAngle beachSlope
       (waveForecastToMetric X wave0) (windForecastToMetric X wind0) = Inr (Some sf)"
    by (auto simp: NewSurfForecast_def split: option.splits)
  from synthesize_Some [OF this] show "SurfForecast.Units sf = Metric" by blast
qed (simp_all add: NewSurfForecast_def waveForecastToMetric_def windForecastToMetric_def)

theorem NewSurfForecast_converts_to_metric_witness:
  "\<exists>sf. snd (snd (NewSurfForecast stubs sample_location 180 0.02
              (Some (sample_wave English (Some [sample_wave_record])))
              (Some (sample_wind Metric None)))) = Inr (Some sf)
        \<and> SurfForecast.Units sf = Metric"
proof -
  obtain sf where sf: "snd (snd (NewSurfForecast stubs sample_location 180 0.02
              (Some (sample_wave English (Some [sample_wave_record])))
              (Some (sample_wind Metric None)))) = Inr (Some sf)"
    by (simp add: NewSurfForecast_def synthesize_def waveForecastToMetric_def
          windForecastToMetric_def sample_wave_def sample_wind_def stubs_def
          surfForecastItemFor_def fillWind_def)
  with NewSurfForecast_converts_to_metric
    [of stubs sample_location 180 "0.02" "Some (sample_wave English (Some [sample_wave_record]))"
        "Some (sample_wind Metric None)"]
  show ?thesis by blast
qed

section \<open>Buoy observations: properties\<close>

subsection \<open>Merging the latest report\<close>

lemma MergeLatestBuoyReading_self: "MergeLatestBuoyReading item item = item"
  by (simp add: MergeLatestBuoyReading_def)

lemma MergeLatestBuoyReading_replaced:
  "BuoyItem.Date (MergeLatestBuoyReading b new) = BuoyItem.Date new"
  "BuoyItem.WindDirection (MergeLatestBuoyReading b new) = BuoyItem.WindDirection new"
  "BuoyItem.WindSpeed (MergeLatestBuoyReading b new) = BuoyItem.WindSpeed new"
  "WindGust (MergeLatestBuoyReading b new) = WindGust new"
  "SignificantWaveHeight (MergeLatestBuoyReading b new) = SignificantWaveHeight new"
  "DominantWavePeriod (MergeLatestBuoyReading b new) = DominantWavePeriod new"
  "AveragePeriod (MergeLatestBuoyReading b new) = AveragePeriod new"
  "MeanWaveDirection (MergeLatestBuoyReading b new) = MeanWaveDirection new"
  "Pressure (MergeLatestBuoyReading b new) = Pressure new"
  "AirTemperature (MergeLatestBuoyReading b new) = AirTemperature new"
  "WaterTemperature (MergeLatestBuoyReading b new) = WaterTemperature new"
  "DewpointTemperature (MergeLatestBuoyReading b new) = DewpointTemperature new"
  by (simp_all add: MergeLatestBuoyReading_def)

lemma MergeLatestBuoyReading_kept:
  "DominantWaveDirection (MergeLatestBuoyReading b new) = DominantWaveDirection b"
  "SwellWaveHeight (MergeLatestBuoyReading b new) = SwellWaveHeight b"
  "SwellWavePeriod (MergeLatestBuoyReading b new) = SwellWavePeriod b"
  "SwellWaveDirection (MergeLatestBuoyReading b new) = SwellWaveDirection b"
  "BuoyItem.WindSwellWaveHeight (MergeLatestBuoyReading b new) = BuoyItem.WindSwellWaveHeight b"
  "WindSwellWavePeriod (MergeLatestBuoyReading b new) = WindSwellWavePeriod b"
  "BuoyItem.WindSwellDirection (MergeLatestBuoyReading b new) = BuoyItem.WindSwellDirection b"
  "Steepness (MergeLatestBuoyReading b new) = Steepness b"
  "Visibility (MergeLatestBuoyReading b new) = Visibility b"
  "PressureTendency (MergeLatestBuoyReading b new) = PressureTendency b"
  "WaterLevel (MergeLatestBuoyReading b new) = WaterLevel b"
  by (simp_all add: MergeLatestBuoyReading_def)

lemma Split_nonempty: "Split s sep \<noteq> []"
  by (cases s) (auto split: list.splits)

lemma sample_latest_report_lines:
  "Split sample_latest_report (CHR 0x0A) =
     [''Station 44097'', ''40.967 N 71.126 W'', '''', ''6:26 am EDT'', ''1026 GMT 07/05/15'',
      ''Seas: 3.0 ft'', ''Peak Period: 8 sec'', ''Swell: 2.6 ft'', ''Period: 8.3 sec'',
      ''Direction: SSE'', ''Wind Wave: 1.3 ft'', ''Period: 4.0 sec'', ''Direction: SSW'', '''']"
  by (simp add: sample_latest_report_def)

text \<open>
  Claim C5. The claim has the swell and wind swell heights, periods and directions of the
  incoming latest report replace those of the existing observation. The incoming
  observation here has swell height 2.6, the existing one swell height 1, period 9 and
  direction S, wind swell height 0.5, period 4 and direction W: after the merge all six are
  those of the existing observation, while the significant wave height is the incoming 3.
  A report parsed into a buoy with an empty series is stored whole, swell fields included;
  parsed into a buoy that holds the existing observation it is merged, and the swell height
  stays 1 whatever the report says.
\<close>

theorem MergeLatestBuoyReading_drops_incoming_swell:
  "SwellWaveHeight sample_latest_observation = 2.6
   \<and> SwellWaveHeight (MergeLatestBuoyReading sample_prior_observation sample_latest_observation) = 1
   \<and> SwellWavePeriod (MergeLatestBuoyReading sample_prior_observation sample_latest_observation) = 9
   \<and> SwellWaveDirection (MergeLatestBuoyReading sample_prior_observation sample_latest_observation)
       = ''S''
   \<and> BuoyItem.WindSwellWaveHeight
       (MergeLatestBuoyReading sample_prior_observation sample_latest_observation) = 0.5
   \<and> WindSwellWavePeriod
       (MergeLatestBuoyReading sample_prior_observation sample_latest_observation) = 4
   \<and> BuoyItem.WindSwellDirection
       (MergeLatestBuoyReading sample_prior_observation sample_latest_observation) = ''W''
   \<and> SignificantWaveHeight
       (MergeLatestBuoyReading sample_prior_observation sample_latest_observation) = 3
   \<and> BuoyData (fst (ParseRawLatestBuoyData L sample_latest_report (sample_buoy (Some []))))
       = Some [latestBuoyItem L (Split sample_latest_report (CHR 0x0A))]
   \<and> BuoyData (fst (ParseRawLatestBuoyData L sample_latest_report
         (sample_buoy (Some [sample_prior_observation]))))
       = Some [MergeLatestBuoyReading sample_prior_observation
                 (latestBuoyItem L (Split sample_latest_report (CHR 0x0A)))]
   \<and> SwellWaveHeight (MergeLatestBuoyReading sample_prior_observation
         (latestBuoyItem L (Split sample_latest_report (CHR 0x0A)))) = 1"
proof -
  have merged: "SwellWaveHeight sample_latest_observation = 2.6
   \<and> SwellWaveHeight (MergeLatestBuoyReading sample_prior_observation sample_latest_observation) = 1
   \<and> SwellWavePeriod (MergeLatestBuoyReading sample_prior_observation sample_latest_observation) = 9
   \<and> SwellWaveDirection (MergeLatestBuoyReading sample_prior_observation sample_latest_observation)
       = ''S''
   \<and> BuoyItem.WindSwellWaveHeight
       (MergeLatestBuoyReading sample_prior_observation sample_latest_observation) = 0.5
   \<and> WindSwellWavePeriod
       (MergeLatestBuoyReading sample_prior_observation sample_latest_observation) = 4
   \<and> BuoyItem.WindSwellDirection
       (MergeLatestBuoyReading sample_prior_observation sample_latest_observation) = ''W''
   \<and> SignificantWaveHeight
       (MergeLatestBuoyReading sample_prior_observation sample_latest_observation) = 3"
    by (simp add: MergeLatestBuoyReading_def sample_prior_observation_def
          sample_latest_observation_def)
  have stored: "BuoyData (fst (ParseRawLatestBuoyData L sample_latest_report (sample_buoy (Some []))))
       = Some [latestBuoyItem L (Split sample_latest_report (CHR 0x0A))]"
    by (simp add: ParseRawLatestBuoyData_def sample_latest_report_lines sample_buoy_def)
  have parsed: "BuoyData (fst (ParseRawLatestBuoyData L sample_latest_report
         (sample_buoy (Some [sample_prior_observation]))))
       = Some [MergeLatestBuoyReading sample_prior_observation
                 (latestBuoyItem L (Split sample_latest_report (CHR 0x0A)))]"
    by (simp add: ParseRawLatestBuoyData_def sample_latest_report_lines sample_buoy_def)
  have kept: "SwellWaveHeight (MergeLatestBuoyReading sample_prior_observation
         (latestBuoyItem L (Split sample_latest_report (CHR 0x0A)))) = 1"
    by (simp add: MergeLatestBuoyReading_kept sample_prior_observation_def)
  from merged stored parsed kept show ?thesis by blast
qed

text \<open>
  Claim C8. On a buoy whose observation series is \<^verbatim>\<open>nil\<close> or empty, parsing the same latest
  report a second time leaves the buoy, and the error returned, exactly as the first parse
  left them.
\<close>

theorem ParseRawLatestBuoyData_twice:
  assumes "BuoyData b = None \<or> BuoyData b = Some []"
  shows "ParseRawLatestBuoyData L rawBuoyData (fst (ParseRawLatestBuoyData L rawBuoyData b))
         = ParseRawLatestBuoyData L rawBuoyData b"
proof (cases "length (Split rawBuoyData (CHR 0x0A)) < 6")
  case True
  then show ?thesis by (simp add: ParseRawLatestBuoyData_def)
next
  case False
  with assms show ?thesis
    by (auto simp: ParseRawLatestBuoyData_def MergeLatestBuoyReading_self)
qed

theorem ParseRawLatestBuoyData_twice_witness:
  "BuoyData (sample_buoy None) = None
   \<and> snd (ParseRawLatestBuoyData buoy_stubs sample_latest_report (sample_buoy None)) = None
   \<and> ParseRawLatestBuoyData buoy_stubs sample_latest_report
       (fst (ParseRawLatestBuoyData buoy_stubs sample_latest_report (sample_buoy None)))
     = ParseRawLatestBuoyData buoy_stubs sample_latest_report (sample_buoy None)"
proof -
  have h: "BuoyData (sample_buoy None) = None \<or> BuoyData (sample_buoy None) = Some []"
    by (simp add: sample_buoy_def)
  have "snd (ParseRawLatestBuoyData buoy_stubs sample_latest_report (sample_buoy None)) = None"
    by (simp add: ParseRawLatestBuoyData_def sample_latest_report_lines sample_buoy_def)
  with h ParseRawLatestBuoyData_twice [OF h, of buoy_stubs sample_latest_report]
  show ?thesis by (simp add: sample_buoy_def)
qed

subsection \<open>Nearest observation\<close>

text \<open>
  Evaluating \<open>float64_round\<close>: within a binade the unit in the last place is a fixed power of
  two, and a real strictly within one half of an integer rounds to that integer.
\<close>

lemma float64_round_binade:
  assumes "2 ^ k \<le> \<bar>x\<bar>" and "\<bar>x\<bar> < 2 ^ Suc k"
  shows "float64_round x = of_int (round_half_even (x * 2 ^ 52 / 2 ^ k)) * 2 ^ k / 2 ^ 52"
proof -
  have "(0::real) < 2 ^ k" by simp
  with assms(1) have pos: "0 < \<bar>x\<bar>" by linarith
  have "2 powr (of_int (int k)) \<le> \<bar>x\<bar> \<and> \<bar>x\<bar> < 2 powr (of_int (int k + 1))"
    using assms by (simp add: powr_realpow powr_add)
  then have e: "\<lfloor>log 2 \<bar>x\<bar>\<rfloor> = int k"
    using floor_log_eq_powr_iff [of "\<bar>x\<bar>" 2 "int k"] pos by simp
  have ulp: "2 powr (real_of_int \<lfloor>log 2 \<bar>x\<bar>\<rfloor> - 52) = (2::real) ^ k / 2 ^ 52"
    unfolding e by (simp add: powr_diff powr_realpow)
  from pos have "x \<noteq> 0" by auto
  then show ?thesis
    unfolding float64_round_def Let_def ulp by simp
qed

lemma two_powr_minus_nat: "2 powr (- real n) = 1 / (2::real) ^ n"
  by (simp add: powr_minus_divide powr_realpow)

lemma float64_round_binade_below_one:
  assumes "1 / 2 ^ Suc k \<le> \<bar>x\<bar>" and "\<bar>x\<bar> < 1 / 2 ^ k"
  shows "float64_round x = of_int (round_half_even (x * 2 ^ (53 + k))) / 2 ^ (53 + k)"
proof -
  have "(0::real) < 1 / 2 ^ Suc k" by simp
  with assms(1) have pos: "0 < \<bar>x\<bar>" by linarith
  have "real_of_int (- int (Suc k)) = - real (Suc k)"
    by (simp only: of_int_minus of_int_of_nat_eq)
  then have p1: "2 powr (real_of_int (- int (Suc k))) = 1 / (2::real) ^ Suc k"
    by (simp only: two_powr_minus_nat)
  have "real_of_int (- int (Suc k) + 1) = - real k"
    by simp
  then have p2: "2 powr (real_of_int (- int (Suc k) + 1)) = 1 / (2::real) ^ k"
    by (simp only: two_powr_minus_nat)
  have "2 powr (real_of_int (- int (Suc k))) \<le> \<bar>x\<bar>
      \<and> \<bar>x\<bar> < 2 powr (real_of_int (- int (Suc k) + 1))"
    unfolding p1 p2 using assms by blast
  then have e: "\<lfloor>log 2 \<bar>x\<bar>\<rfloor> = - int (Suc k)"
    using floor_log_eq_powr_iff [of "\<bar>x\<bar>" 2 "- int (Suc k)"] pos by simp
  have "real_of_int (- int (Suc k)) - 52 = - real (53 + k)" by simp
  then have ulp: "2 powr (real_of_int \<lfloor>log 2 \<bar>x\<bar>\<rfloor> - 52) = 1 / (2::real) ^ (53 + k)"
    unfolding e by (simp only: two_powr_minus_nat)
  from pos have "x \<noteq> 0" by auto
  then show ?thesis
    unfolding float64_round_def Let_def ulp by simp
qed

lemma round_half_even_eq:
  assumes "of_int n - 1 / 2 < q" and "q < of_int n + 1 / 2"
  shows "round_half_even q = n"
proof (cases "of_int n \<le> q")
  case True
  with assms have "\<lfloor>q\<rfloor> = n" by linarith
  with assms show ?thesis by (simp add: round_half_even_def)
next
  case False
  with assms have f: "\<lfloor>q\<rfloor> = n - 1" by linarith
  with assms have "1 / 2 < q - of_int \<lfloor>q\<rfloor>" by simp
  with f show ?thesis by (simp add: round_half_even_def)
qed

lemma float64_round_zero: "float64_round 0 = 0"
  by (simp add: float64_round_def)

text \<open>
  The whole-second durations used below are exact. The durations 8999999999999998 and
  8999999999999999 nanoseconds, about 104 days, have the same \<^verbatim>\<open>Seconds()\<close>: the sum lies in the binade of
  \<open>2\<^sup>2\<^sup>3\<close>, where neighbouring \<^verbatim>\<open>float64\<close> values are \<open>2\<^sup>-\<^sup>2\<^sup>9\<close> apart, more than a nanosecond.
\<close>

lemma Duration_Seconds_400: "Duration_Seconds 400000000000 = 400"
proof -
  have a: "float64_round 400 = of_int (round_half_even (400 * 2 ^ 52 / 2 ^ 8)) * 2 ^ 8 / 2 ^ 52"
    by (rule float64_round_binade) simp_all
  have b: "round_half_even (400 * 2 ^ 52 / 2 ^ 8) = 7036874417766400"
    by (rule round_half_even_eq) simp_all
  have "Duration_Seconds 400000000000 = float64_round 400"
    by (simp add: Duration_Seconds_def float64_round_zero)
  then show ?thesis unfolding a b by simp
qed

lemma Duration_Seconds_4000: "Duration_Seconds 4000000000000 = 4000"
proof -
  have a: "float64_round 4000 = of_int (round_half_even (4000 * 2 ^ 52 / 2 ^ 11)) * 2 ^ 11 / 2 ^ 52"
    by (rule float64_round_binade) simp_all
  have b: "round_half_even (4000 * 2 ^ 52 / 2 ^ 11) = 8796093022208000"
    by (rule round_half_even_eq) simp_all
  have "Duration_Seconds 4000000000000 = float64_round 4000"
    by (simp add: Duration_Seconds_def float64_round_zero)
  then show ?thesis unfolding a b by simp
qed

lemma Duration_Seconds_minus_3200: "Duration_Seconds (- 3200000000000) = - 3200"
proof -
  have a: "float64_round (- 3200)
      = of_int (round_half_even (- 3200 * 2 ^ 52 / 2 ^ 11)) * 2 ^ 11 / 2 ^ 52"
    by (rule float64_round_binade) simp_all
  have b: "round_half_even (- 3200 * 2 ^ 52 / 2 ^ 11) = - 7036874417766400"
    by (rule round_half_even_eq) simp_all
  have "Duration_Seconds (- 3200000000000) = float64_round (- 3200)"
    by (simp add: Duration_Seconds_def float64_round_zero)
  then show ?thesis unfolding a b by simp
qed

lemma float64_round_sum_104_days:
  "float64_round (8999999 + 9007199245733793 / 9007199254740992) = 4831838207999999 / 536870912"
  "float64_round (8999999 + 9007199236726593 / 9007199254740992) = 4831838207999999 / 536870912"
proof -
  have a: "float64_round (8999999 + 9007199245733793 / 9007199254740992)
      = of_int (round_half_even ((8999999 + 9007199245733793 / 9007199254740992) * 2 ^ 52 / 2 ^ 23))
          * 2 ^ 23 / 2 ^ 52"
    by (rule float64_round_binade) simp_all
  have b: "round_half_even ((8999999 + 9007199245733793 / 9007199254740992) * 2 ^ 52 / 2 ^ 23)
      = 4831838207999999"
    by (rule round_half_even_eq) simp_all
  show "float64_round (8999999 + 9007199245733793 / 9007199254740992)
      = 4831838207999999 / 536870912"
    unfolding a b by simp
  have c: "float64_round (8999999 + 9007199236726593 / 9007199254740992)
      = of_int (round_half_even ((8999999 + 9007199236726593 / 9007199254740992) * 2 ^ 52 / 2 ^ 23))
          * 2 ^ 23 / 2 ^ 52"
    by (rule float64_round_binade) simp_all
  have d: "round_half_even ((8999999 + 9007199236726593 / 9007199254740992) * 2 ^ 52 / 2 ^ 23)
      = 4831838207999999"
    by (rule round_half_even_eq) simp_all
  show "float64_round (8999999 + 9007199236726593 / 9007199254740992)
      = 4831838207999999 / 536870912"
    unfolding c d by simp
qed

lemma float64_round_nsec_104_days:
  "float64_round (999999999 / 1000000000) = 9007199245733793 / 9007199254740992"
  "float64_round (999999998 / 1000000000) = 9007199236726593 / 9007199254740992"
proof -
  have a: "float64_round (999999999 / 1000000000)
      = of_int (round_half_even (999999999 / 1000000000 * 2 ^ (53 + 0))) / 2 ^ (53 + 0)"
    by (rule float64_round_binade_below_one) simp_all
  have b: "round_half_even (999999999 / 1000000000 * 2 ^ (53 + 0)) = 9007199245733793"
    by (rule round_half_even_eq) simp_all
  show "float64_round (999999999 / 1000000000) = 9007199245733793 / 9007199254740992"
    unfolding a b by simp
  have c: "float64_round (999999998 / 1000000000)
      = of_int (round_half_even (999999998 / 1000000000 * 2 ^ (53 + 0))) / 2 ^ (53 + 0)"
    by (rule float64_round_binade_below_one) simp_all
  have d: "round_half_even (999999998 / 1000000000 * 2 ^ (53 + 0)) = 9007199236726593"
    by (rule round_half_even_eq) simp_all
  show "float64_round (999999998 / 1000000000) = 9007199236726593 / 9007199254740992"
    unfolding c d by simp
qed

lemma Duration_Seconds_104_days:
  "Duration_Seconds 8999999999999999 = 4831838207999999 / 536870912"
  "Duration_Seconds 8999999999999998 = 4831838207999999 / 536870912"
proof -
  have "Duration_Seconds 8999999999999999
      = float64_round (8999999 + float64_round (999999999 / 1000000000))"
    by (simp add: Duration_Seconds_def)
  then show "Duration_Seconds 8999999999999999 = 4831838207999999 / 536870912"
    unfolding float64_round_nsec_104_days float64_round_sum_104_days .
  have "Duration_Seconds 8999999999999998
      = float64_round (8999999 + float64_round (999999998 / 1000000000))"
    by (simp add: Duration_Seconds_def)
  then show "Duration_Seconds 8999999999999998 = 4831838207999999 / 536870912"
    unfolding float64_round_nsec_104_days float64_round_sum_104_days .
qed

text \<open>
  The scan keeps an observation that no other observation of the series beats in the
  comparison of line 353.
\<close>

lemma findLoop_nearest:
  assumes "findLoop date rest (m, Time_Sub date (BuoyItem.Date m)) = (r, d)"
  shows "d = Time_Sub date (BuoyItem.Date r) \<and> r \<in> insert m (set rest)
     \<and> \<bar>Duration_Seconds (Time_Sub date (BuoyItem.Date r))\<bar>
         \<le> \<bar>Duration_Seconds (Time_Sub date (BuoyItem.Date m))\<bar>
     \<and> (\<forall>x\<in>set rest. \<bar>Duration_Seconds (Time_Sub date (BuoyItem.Date r))\<bar>
           \<le> \<bar>Duration_Seconds (Time_Sub date (BuoyItem.Date x))\<bar>)"
  using assms
proof (induction rest arbitrary: m)
  case Nil
  then show ?case by auto
next
  case (Cons item rest)
  show ?case
  proof (cases "\<bar>Duration_Seconds (Time_Sub date (BuoyItem.Date item))\<bar>
        < \<bar>Duration_Seconds (Time_Sub date (BuoyItem.Date m))\<bar>")
    case True
    with Cons.prems have "findLoop date rest (item, Time_Sub date (BuoyItem.Date item)) = (r, d)"
      by simp
    from Cons.IH [OF this] True show ?thesis by auto
  next
    case False
    with Cons.prems have "findLoop date rest (m, Time_Sub date (BuoyItem.Date m)) = (r, d)"
      by simp
    from Cons.IH [OF this] False show ?thesis by auto
  qed
qed

lemma Time_Sub_exact:
  "\<bar>t - u\<bar> < 2 ^ 63 \<Longrightarrow> Time_Sub t u = t - u"
  by (auto simp: Time_Sub_def time_minDuration_def time_maxDuration_def abs_less_iff)

lemma Time_Sub_sign:
  "u < t \<Longrightarrow> 0 < Time_Sub t u" "t < u \<Longrightarrow> Time_Sub t u < 0" "Time_Sub t t = 0"
  by (simp_all add: Time_Sub_def time_minDuration_def time_maxDuration_def)

text \<open>
  Claim C6, as the code has it. On a \<^verbatim>\<open>nil\<close> or empty series the lookup returns the zero
  observation and the duration \<open>-1\<close>. On every non-empty series it returns an observation of
  the series with the signed duration \<^verbatim>\<open>date.Sub(observation.Date)\<close>: query minus
  observation, so positive when the observation is earlier than the query and negative when
  it is later, and the exact difference whenever that fits in 64 bits. No observation of
  the series has a smaller absolute \<^verbatim>\<open>Seconds()\<close> of its duration than the one returned,
  which is the comparison the scan makes; what is returned among observations whose
  durations have the same \<^verbatim>\<open>Seconds()\<close> is not stated. On a series of one element it returns
  that element. The duration \<open>-1\<close> is not reserved for the empty series.
\<close>

theorem FindConditionsForDateAndTime_nearest:
  "(BuoyData b = None \<or> BuoyData b = Some [] \<longrightarrow>
      FindConditionsForDateAndTime b date = (zero_BuoyItem, -1))
   \<and> (\<forall>items. BuoyData b = Some items \<and> items \<noteq> [] \<longrightarrow>
        (\<exists>m\<in>set items.
           FindConditionsForDateAndTime b date = (m, Time_Sub date (BuoyItem.Date m))
         \<and> (\<forall>x\<in>set items.
               \<bar>Duration_Seconds (Time_Sub date (BuoyItem.Date m))\<bar>
                 \<le> \<bar>Duration_Seconds (Time_Sub date (BuoyItem.Date x))\<bar>)))
   \<and> (\<forall>x. BuoyData b = Some [x] \<longrightarrow>
        FindConditionsForDateAndTime b date = (x, Time_Sub date (BuoyItem.Date x)))
   \<and> (\<forall>x::BuoyItem. (BuoyItem.Date x < date \<longrightarrow> 0 < Time_Sub date (BuoyItem.Date x))
         \<and> (date < BuoyItem.Date x \<longrightarrow> Time_Sub date (BuoyItem.Date x) < 0)
         \<and> (\<bar>date - BuoyItem.Date x\<bar> < 2 ^ 63 \<longrightarrow>
              Time_Sub date (BuoyItem.Date x) = date - BuoyItem.Date x))"
proof (intro conjI allI impI)
  assume "BuoyData b = None \<or> BuoyData b = Some []"
  then show "FindConditionsForDateAndTime b date = (zero_BuoyItem, -1)"
    by (auto simp: FindConditionsForDateAndTime_def)
next
  fix items assume "BuoyData b = Some items \<and> items \<noteq> []"
  then obtain first rest where items: "BuoyData b = Some (first # rest)" "items = first # rest"
    by (cases items) auto
  obtain r d where rd: "findLoop date rest (first, Time_Sub date (BuoyItem.Date first)) = (r, d)"
    by (cases "findLoop date rest (first, Time_Sub date (BuoyItem.Date first))") blast
  from findLoop_nearest [OF rd] have
    "d = Time_Sub date (BuoyItem.Date r)" "r \<in> set items"
    "\<forall>x\<in>set items. \<bar>Duration_Seconds (Time_Sub date (BuoyItem.Date r))\<bar>
        \<le> \<bar>Duration_Seconds (Time_Sub date (BuoyItem.Date x))\<bar>"
    using items(2) by auto
  moreover from rd items(1) have "FindConditionsForDateAndTime b date = (r, d)"
    by (simp add: FindConditionsForDateAndTime_def)
  ultimately show "\<exists>m\<in>set items.
           FindConditionsForDateAndTime b date = (m, Time_Sub date (BuoyItem.Date m))
         \<and> (\<forall>x\<in>set items.
               \<bar>Duration_Seconds (Time_Sub date (BuoyItem.Date m))\<bar>
                 \<le> \<bar>Duration_Seconds (Time_Sub date (BuoyItem.Date x))\<bar>)"
    by blast
next
  fix x assume "BuoyData b = Some [x]"
  then show "FindConditionsForDateAndTime b date = (x, Time_Sub date (BuoyItem.Date x))"
    by (simp add: FindConditionsForDateAndTime_def)
next
  fix x :: BuoyItem assume "BuoyItem.Date x < date"
  then show "0 < Time_Sub date (BuoyItem.Date x)" by (rule Time_Sub_sign)
next
  fix x :: BuoyItem assume "date < BuoyItem.Date x"
  then show "Time_Sub date (BuoyItem.Date x) < 0" by (rule Time_Sub_sign)
next
  fix x :: BuoyItem assume "\<bar>date - BuoyItem.Date x\<bar> < 2 ^ 63"
  then show "Time_Sub date (BuoyItem.Date x) = date - BuoyItem.Date x" by (rule Time_Sub_exact)
qed

theorem FindConditionsForDateAndTime_nearest_witness:
  "FindConditionsForDateAndTime
     (sample_buoy (Some [observation_at 0, observation_at 3600000000000,
                         observation_at 7200000000000])) 4000000000000
   = (observation_at 3600000000000, 400000000000)
   \<and> FindConditionsForDateAndTime (sample_buoy None) 4000000000000 = (zero_BuoyItem, -1)
   \<and> FindConditionsForDateAndTime (sample_buoy (Some [observation_at 7200000000000]))
        4000000000000 = (observation_at 7200000000000, -3200000000000)"
proof -
  let ?items = "[observation_at 0, observation_at 3600000000000, observation_at 7200000000000]"
  let ?b = "sample_buoy (Some ?items)"
  note nearest = FindConditionsForDateAndTime_nearest
  have sub: "Time_Sub 4000000000000 (BuoyItem.Date (observation_at 0)) = 4000000000000"
    "Time_Sub 4000000000000 (BuoyItem.Date (observation_at 3600000000000)) = 400000000000"
    "Time_Sub 4000000000000 (BuoyItem.Date (observation_at 7200000000000)) = - 3200000000000"
    by (simp_all add: observation_at_def Time_Sub_def time_minDuration_def time_maxDuration_def)
  have "BuoyData ?b = Some ?items \<and> ?items \<noteq> []"
    by (simp add: sample_buoy_def)
  with nearest [of ?b 4000000000000]
  obtain m where m: "m \<in> set ?items"
    "FindConditionsForDateAndTime ?b 4000000000000 = (m, Time_Sub 4000000000000 (BuoyItem.Date m))"
    "\<forall>x\<in>set ?items. \<bar>Duration_Seconds (Time_Sub 4000000000000 (BuoyItem.Date m))\<bar>
        \<le> \<bar>Duration_Seconds (Time_Sub 4000000000000 (BuoyItem.Date x))\<bar>"
    by blast
  from m(3) have "\<bar>Duration_Seconds (Time_Sub 4000000000000 (BuoyItem.Date m))\<bar>
      \<le> \<bar>Duration_Seconds (Time_Sub 4000000000000
            (BuoyItem.Date (observation_at 3600000000000)))\<bar>"
    by simp
  then have le: "\<bar>Duration_Seconds (Time_Sub 4000000000000 (BuoyItem.Date m))\<bar> \<le> 400"
    unfolding sub Duration_Seconds_400 by simp
  from m(1) have "m = observation_at 0 \<or> m = observation_at 3600000000000
      \<or> m = observation_at 7200000000000"
    by simp
  then have "m = observation_at 3600000000000"
  proof (elim disjE)
    assume a: "m = observation_at 0"
    from le have "\<bar>Duration_Seconds 4000000000000\<bar> \<le> 400"
      unfolding a sub .
    then show ?thesis unfolding Duration_Seconds_4000 by simp
  next
    assume a: "m = observation_at 7200000000000"
    from le have "\<bar>Duration_Seconds (- 3200000000000)\<bar> \<le> 400"
      unfolding a sub .
    then show ?thesis unfolding Duration_Seconds_minus_3200 by simp
  qed
  with m(2) have 1: "FindConditionsForDateAndTime ?b 4000000000000
      = (observation_at 3600000000000, 400000000000)"
    by (simp add: sub)
  have "BuoyData (sample_buoy None) = None \<or> BuoyData (sample_buoy None) = Some []"
    by (simp add: sample_buoy_def)
  with nearest [of "sample_buoy None" 4000000000000]
  have 2: "FindConditionsForDateAndTime (sample_buoy None) 4000000000000 = (zero_BuoyItem, -1)"
    by blast
  have "BuoyData (sample_buoy (Some [observation_at 7200000000000]))
      = Some [observation_at 7200000000000]"
    by (simp add: sample_buoy_def)
  with nearest [of "sample_buoy (Some [observation_at 7200000000000])" 4000000000000]
  have "FindConditionsForDateAndTime (sample_buoy (Some [observation_at 7200000000000]))
        4000000000000 = (observation_at 7200000000000,
          Time_Sub 4000000000000 (BuoyItem.Date (observation_at 7200000000000)))"
    by blast
  then have 3: "FindConditionsForDateAndTime (sample_buoy (Some [observation_at 7200000000000]))
        4000000000000 = (observation_at 7200000000000, -3200000000000)"
    by (simp add: sub)
  from 1 2 3 show ?thesis by blast
qed

text \<open>
  A series holding one observation dated one nanosecond after the query yields the duration
  \<open>-1\<close>; an observation one hour before the query yields a positive duration. With
  observations at 0 and at 1 nanosecond and the query 8999999999999999 nanoseconds later,
  the two durations have the same \<^verbatim>\<open>Seconds()\<close>, the comparison of line 353 is false, and
  the lookup returns the observation at 0, although the observation at 1 is nearer.
\<close>

theorem FindConditionsForDateAndTime_sentinel_sign_nearest_counterexample:
  "FindConditionsForDateAndTime (sample_buoy (Some [observation_at 1])) 0
     = (observation_at 1, -1)
   \<and> FindConditionsForDateAndTime (sample_buoy (Some [observation_at 0])) 3600000000000
     = (observation_at 0, 3600000000000)
   \<and> FindConditionsForDateAndTime (sample_buoy (Some [observation_at 0, observation_at 1]))
       8999999999999999
     = (observation_at 0, 8999999999999999)
   \<and> \<bar>8999999999999999 - BuoyItem.Date (observation_at 1)\<bar>
       < \<bar>8999999999999999 - BuoyItem.Date (observation_at 0)\<bar>"
proof -
  have sub: "Time_Sub 8999999999999999 (BuoyItem.Date (observation_at 0)) = 8999999999999999"
    "Time_Sub 8999999999999999 (BuoyItem.Date (observation_at 1)) = 8999999999999998"
    by (simp_all add: observation_at_def Time_Sub_def time_minDuration_def time_maxDuration_def)
  have "findLoop 8999999999999999 [observation_at 1]
      (observation_at 0, Time_Sub 8999999999999999 (BuoyItem.Date (observation_at 0)))
    = (observation_at 0, 8999999999999999)"
    unfolding findLoop.simps Let_def sub Duration_Seconds_104_days by simp
  then have far: "FindConditionsForDateAndTime
      (sample_buoy (Some [observation_at 0, observation_at 1])) 8999999999999999
     = (observation_at 0, 8999999999999999)"
    by (simp add: FindConditionsForDateAndTime_def sample_buoy_def)
  have rest: "FindConditionsForDateAndTime (sample_buoy (Some [observation_at 1])) 0
       = (observation_at 1, -1)
     \<and> FindConditionsForDateAndTime (sample_buoy (Some [observation_at 0])) 3600000000000
       = (observation_at 0, 3600000000000)
     \<and> \<bar>8999999999999999 - BuoyItem.Date (observation_at 1)\<bar>
         < \<bar>8999999999999999 - BuoyItem.Date (observation_at 0)\<bar>"
    by (simp add: FindConditionsForDateAndTime_def sample_buoy_def observation_at_def
          Time_Sub_def time_minDuration_def time_maxDuration_def)
  from far rest show ?thesis by blast
qed

end
